theory Spec2Isabelle
  imports Complex_Main "HOL-Library.Word"
begin

section \<open>Floating-point values\<close>

text \<open>
  The C++ type \<^verbatim>\<open>float\<close> is the binary32 format of IEEE 754: the finite values other
  than negative zero with their real value (so that \<open>Fin 0\<close> is positive zero), negative zero,
  the two infinities and NaN. The result of an operation is the exact result rounded to
  the nearest number with 24 significant bits, a tie going to the even one, and it is an
  infinity when that number exceeds the largest finite value. The exponent is taken to be
  unbounded below: a result smaller than the least normal number is rounded to 24 bits
  like any other, so the loss of precision on underflow is not modelled, and a sum, a
  product or a quotient of numbers is zero only when the exact one is. \<^verbatim>\<open>double\<close> is
  binary64, with 53 bits. The argument of \<open>Fin\<close> may be any real; what an operation
  returns has the precision of its format.
\<close>

datatype float = Fin real | NZero | PInf | NInf | NaN

text \<open>Rounding to the nearest integer, a tie going to the even one.\<close>

definition rne :: "real \<Rightarrow> int" where
  "rne x =
     (let f = \<lfloor>x\<rfloor>; r = x - of_int f
      in if r < 1 / 2 then f else if 1 / 2 < r then f + 1 else if even f then f else f + 1)"

text \<open>
  Rounding to \<open>p\<close> significant bits with the largest finite value \<open>mx\<close>: the value is
  rounded to a multiple of the unit in the last place of its binade.
\<close>

definition rnd :: "nat \<Rightarrow> real \<Rightarrow> real \<Rightarrow> float" where
  "rnd p mx x =
     (if x = 0 then Fin 0
      else
        (let u = 2 powi (\<lfloor>log 2 \<bar>x\<bar>\<rfloor> - int p + 1);
             y = of_int (rne (x / u)) * u
         in if mx < \<bar>y\<bar> then (if 0 < x then PInf else NInf) else Fin y))"

definition rnd32 :: "real \<Rightarrow> float" where
  "rnd32 = rnd 24 (2 ^ 128 - 2 ^ 104)"

definition rnd64 :: "real \<Rightarrow> float" where
  "rnd64 = rnd 53 (2 ^ 1024 - 2 ^ 971)"

fun val :: "float \<Rightarrow> real" where
  "val (Fin a) = a"
| "val x = 0"

fun signbit :: "float \<Rightarrow> bool" where
  "signbit (Fin a) = (a < 0)"
| "signbit NZero = True"
| "signbit NInf = True"
| "signbit x = False"

definition isInf :: "float \<Rightarrow> bool" where
  "isInf x = (x = PInf \<or> x = NInf)"

definition isZero :: "float \<Rightarrow> bool" where
  "isZero x = (x = Fin 0 \<or> x = NZero)"

definition zero_of_sign :: "bool \<Rightarrow> float" where
  "zero_of_sign s = (if s then NZero else Fin 0)"

definition inf_of_sign :: "bool \<Rightarrow> float" where
  "inf_of_sign s = (if s then NInf else PInf)"

fun fneg :: "float \<Rightarrow> float" where
  "fneg (Fin a) = (if a = 0 then NZero else Fin (- a))"
| "fneg NZero = Fin 0"
| "fneg PInf = NInf"
| "fneg NInf = PInf"
| "fneg NaN = NaN"

text \<open>
  Addition, multiplication and division with the rounding \<open>r\<close> of the format. A sum
  that is exactly zero is negative zero only when both operands are negative; the sign
  of a zero or infinite product or quotient is the exclusive or of the operands' signs.
\<close>

definition add_with :: "(real \<Rightarrow> float) \<Rightarrow> float \<Rightarrow> float \<Rightarrow> float" where
  "add_with r x y =
     (if x = NaN \<or> y = NaN then NaN
      else if isInf x then (if isInf y \<and> y \<noteq> x then NaN else x)
      else if isInf y then y
      else if val x + val y = 0 then zero_of_sign (signbit x \<and> signbit y)
      else r (val x + val y))"

definition mul_with :: "(real \<Rightarrow> float) \<Rightarrow> float \<Rightarrow> float \<Rightarrow> float" where
  "mul_with r x y =
     (if x = NaN \<or> y = NaN then NaN
      else if isInf x \<or> isInf y then
        (if isZero x \<or> isZero y then NaN else inf_of_sign (signbit x \<noteq> signbit y))
      else if val x * val y = 0 then zero_of_sign (signbit x \<noteq> signbit y)
      else r (val x * val y))"

definition div_with :: "(real \<Rightarrow> float) \<Rightarrow> float \<Rightarrow> float \<Rightarrow> float" where
  "div_with r x y =
     (if x = NaN \<or> y = NaN then NaN
      else if isInf x then (if isInf y then NaN else inf_of_sign (signbit x \<noteq> signbit y))
      else if isInf y then zero_of_sign (signbit x \<noteq> signbit y)
      else if isZero y then (if isZero x then NaN else inf_of_sign (signbit x \<noteq> signbit y))
      else if isZero x then zero_of_sign (signbit x \<noteq> signbit y)
      else r (val x / val y))"

definition fadd :: "float \<Rightarrow> float \<Rightarrow> float" where
  "fadd = add_with rnd32"

definition fsub :: "float \<Rightarrow> float \<Rightarrow> float" where
  "fsub x y = fadd x (fneg y)"

definition fmul :: "float \<Rightarrow> float \<Rightarrow> float" where
  "fmul = mul_with rnd32"

definition fdiv :: "float \<Rightarrow> float \<Rightarrow> float" where
  "fdiv = div_with rnd32"

fun fsqrt :: "float \<Rightarrow> float" where
  "fsqrt (Fin a) = (if a < 0 then NaN else rnd32 (sqrt a))"
| "fsqrt NZero = NZero"
| "fsqrt PInf = PInf"
| "fsqrt NInf = NaN"
| "fsqrt NaN = NaN"

text \<open>The operations of \<^verbatim>\<open>double\<close>, and the conversion of a \<^verbatim>\<open>double\<close> to \<^verbatim>\<open>float\<close>.\<close>

definition dadd :: "float \<Rightarrow> float \<Rightarrow> float" where
  "dadd = add_with rnd64"

definition dmul :: "float \<Rightarrow> float \<Rightarrow> float" where
  "dmul = mul_with rnd64"

definition ddiv :: "float \<Rightarrow> float \<Rightarrow> float" where
  "ddiv = div_with rnd64"

fun toFloat :: "float \<Rightarrow> float" where
  "toFloat (Fin a) = rnd32 a"
| "toFloat x = x"

text \<open>The comparisons: none holds of NaN, and the two zeros are equal.\<close>

definition fless :: "float \<Rightarrow> float \<Rightarrow> bool" where
  "fless x y =
     (if x = NaN \<or> y = NaN then False
      else if x = PInf \<or> y = NInf then False
      else if x = NInf \<or> y = PInf then True
      else val x < val y)"

definition fle :: "float \<Rightarrow> float \<Rightarrow> bool" where
  "fle x y =
     (if x = NaN \<or> y = NaN then False
      else if x = NInf \<or> y = PInf then True
      else if x = PInf \<or> y = NInf then False
      else val x \<le> val y)"

definition fge :: "float \<Rightarrow> float \<Rightarrow> bool" where
  "fge x y = fle y x"


text \<open>\<^verbatim>\<open>std::min(a, b)\<close> is \<^verbatim>\<open>(b < a) ? b : a\<close>, \<^verbatim>\<open>std::max(a, b)\<close> is \<^verbatim>\<open>(a < b) ? b : a\<close>.\<close>

definition std_min :: "float \<Rightarrow> float \<Rightarrow> float" where
  "std_min x y = (if fless y x then y else x)"

definition std_max :: "float \<Rightarrow> float \<Rightarrow> float" where
  "std_max x y = (if fless x y then y else x)"

definition FLT_MAX :: float where
  "FLT_MAX = Fin (2 ^ 128 - 2 ^ 104)"


definition M_1_PI :: float where
  "M_1_PI = Fin (5734161139222659 / 2 ^ 54)"

definition isNum :: "float \<Rightarrow> bool" where
  "isNum x = (x \<noteq> NaN)"

section \<open>Three-component vectors\<close>

text \<open>
  Modelled from the spec: the class template \<^verbatim>\<open>Vec3\<close> of \<^verbatim>\<open>vec3.h\<close>, which is not
  among the sources. Its arithmetic is componentwise, \<^verbatim>\<open>cross\<close> is the cross product,
  a default-constructed vector is zero, and \<^verbatim>\<open>normalize\<close> divides by the Euclidean
  length (the spec: normalize every per-vertex normal).
\<close>

datatype 'a vec3 = Vec3 (vx: 'a) (vy: 'a) (vz: 'a)

type_synonym Vec3f = "float vec3"

definition vzero :: Vec3f where
  "vzero = Vec3 (Fin 0) (Fin 0) (Fin 0)"

fun vadd :: "Vec3f \<Rightarrow> Vec3f \<Rightarrow> Vec3f" where
  "vadd (Vec3 a b c) (Vec3 d e g) = Vec3 (fadd a d) (fadd b e) (fadd c g)"

fun vsub :: "Vec3f \<Rightarrow> Vec3f \<Rightarrow> Vec3f" where
  "vsub (Vec3 a b c) (Vec3 d e g) = Vec3 (fsub a d) (fsub b e) (fsub c g)"

fun vscale :: "float \<Rightarrow> Vec3f \<Rightarrow> Vec3f" where
  "vscale s (Vec3 a b c) = Vec3 (fmul s a) (fmul s b) (fmul s c)"


fun cross :: "Vec3f \<Rightarrow> Vec3f \<Rightarrow> Vec3f" where
  "cross (Vec3 a b c) (Vec3 d e g) =
     Vec3 (fsub (fmul b g) (fmul c e)) (fsub (fmul c d) (fmul a g)) (fsub (fmul a e) (fmul b d))"

fun vnormalize :: "Vec3f \<Rightarrow> Vec3f" where
  "vnormalize (Vec3 a b c) =
     (let l = fsqrt (fadd (fadd (fmul a a) (fmul b b)) (fmul c c))
      in Vec3 (fdiv a l) (fdiv b l) (fdiv c l))"

section \<open>4x4 matrices\<close>

text \<open>
  \<^verbatim>\<open>QMatrix4x4\<close> belongs to the toolkit. A matrix is a function of column and row;
  \<^verbatim>\<open>data()\<close> lays it out column by column, so the flat index \<open>i\<close> is column
  \<open>i div 4\<close>, row \<open>i mod 4\<close>. The product is the general one (the toolkit's shortcuts
  for identity operands are not modelled).
\<close>

type_synonym mat4 = "nat \<Rightarrow> nat \<Rightarrow> float"

definition mat_identity :: mat4 where
  "mat_identity = (\<lambda>c r. if c = r then Fin 1 else Fin 0)"

definition mat_mul :: "mat4 \<Rightarrow> mat4 \<Rightarrow> mat4" where
  "mat_mul m1 m2 = (\<lambda>c r.
     fadd (fadd (fadd (fmul (m1 0 r) (m2 c 0)) (fmul (m1 1 r) (m2 c 1)))
                (fmul (m1 2 r) (m2 c 2)))
          (fmul (m1 3 r) (m2 c 3)))"

definition mat_data :: "mat4 \<Rightarrow> nat \<Rightarrow> float" where
  "mat_data m i = m (i div 4) (i mod 4)"

definition mat_translation :: "float \<Rightarrow> float \<Rightarrow> float \<Rightarrow> mat4" where
  "mat_translation tx ty tz = (\<lambda>c r.
     if c = 3 \<and> r = 0 then tx else if c = 3 \<and> r = 1 then ty else if c = 3 \<and> r = 2 then tz
     else if c = r then Fin 1 else Fin 0)"

definition mat_translate :: "mat4 \<Rightarrow> float \<Rightarrow> float \<Rightarrow> float \<Rightarrow> mat4" where
  "mat_translate m tx ty tz = mat_mul m (mat_translation tx ty tz)"

definition mat_scaling :: "float \<Rightarrow> float \<Rightarrow> float \<Rightarrow> mat4" where
  "mat_scaling sx sy sz = (\<lambda>c r.
     if c \<noteq> r then Fin 0 else if c = 0 then sx else if c = 1 then sy else if c = 2 then sz
     else Fin 1)"

definition mat_scale :: "mat4 \<Rightarrow> float \<Rightarrow> float \<Rightarrow> float \<Rightarrow> mat4" where
  "mat_scale m sx sy sz = mat_mul m (mat_scaling sx sy sz)"

section \<open>The OpenGL context and standard output\<close>

type_synonym GLuint = nat

datatype target = GL_ARRAY_BUFFER | GL_ELEMENT_ARRAY_BUFFER

datatype uniform = Uniform GLuint string

datatype mat3 = NormalMatrixOf mat4

text \<open>
  The attribute locations and the sizes of the unit box's arrays are constants of a
  header that is not among the sources; they stay symbolic. \<open>Location 2\<close> is the
  literal \<^verbatim>\<open>2\<close> that the drawing code passes.
\<close>

datatype location =
    POSITION_LOCATION | NORMAL_LOCATION | COLOR_LOCATION | TEXCOORD_LOCATION
  | TANGENT_LOCATION | Location nat

datatype datasize = Bytes nat | BoxVerticesSize | BoxLineIndicesSize

datatype glcall =
    glClear
  | glGenVertexArrays GLuint
  | glGenBuffers GLuint
  | glBindBuffer target GLuint
  | glBufferData target datasize
  | glDeleteVertexArrays GLuint
  | glDeleteBuffers GLuint
  | glBindVertexArray GLuint
  | glVertexAttribPointer location nat
  | glEnableVertexAttribArray location
  | glDisableVertexAttribArray location
  | glVertexAttrib3fv location Vec3f
  | glVertexAttrib3f location float float float
  | glUniformMatrix4fv uniform mat4
  | glUniformMatrix3fv uniform mat3
  | glUniform1ui uniform bool
  | glUniform1i uniform int
  | glActiveTexture nat
  | glBindTexture GLuint
  | glDrawElementsTriangles nat
  | glDrawElementsLines nat
  | glDrawArraysLines nat
  | glUniform3fv uniform Vec3f

text \<open>
  The world outside the mesh: the calls issued to OpenGL so far (oldest first), the
  number of object names OpenGL has handed out (names are never zero and never reused),
  and what has been written to \<^verbatim>\<open>std::cout\<close>.
\<close>

datatype printed = Str string | Num int | Endl

record world =
  glLog :: "glcall list"
  glNames :: nat
  cout :: "printed list"

definition gl :: "glcall \<Rightarrow> world \<Rightarrow> world" where
  "gl c w = w\<lparr>glLog := glLog w @ [c]\<rparr>"

definition print :: "printed list \<Rightarrow> world \<Rightarrow> world" where
  "print s w = w\<lparr>cout := cout w @ s\<rparr>"

text \<open>
  What makes a run stop without a result. An access out of bounds, a signed overflow and
  the reading of a variable that was never given a value are undefined behaviour.
\<close>

datatype error = OutOfBounds | StackUnderflow | SignedOverflow | NonTermination | Uninitialized

definition andThen :: "error + 'a \<Rightarrow> ('a \<Rightarrow> error + 'b) \<Rightarrow> error + 'b" where
  "andThen r k = (case r of Inl e \<Rightarrow> Inl e | Inr a \<Rightarrow> k a)"

section \<open>The mesh\<close>

datatype ColoringType = STATIC_COLOR | COLOR_ARRAY | TEXTURE | BUMP_MAPPING

text \<open>
  The members of \<^verbatim>\<open>TriangleMesh\<close>, as the member functions use them (the class
  declaration itself is not among the sources). \<open>glf\<close> says whether the pointer \<^verbatim>\<open>f\<close>
  to the OpenGL functions is set. A triangle holds three vertex indices.
\<close>

record TriangleMesh =
  vertices :: "Vec3f list"
  triangles :: "nat vec3 list"
  normals :: "Vec3f list"
  colors :: "Vec3f list"
  texCoords :: "(float \<times> float) list"
  tangents :: "Vec3f list"
  boundingBoxMin :: Vec3f
  boundingBoxMax :: Vec3f
  boundingBoxMid :: Vec3f
  boundingBoxSize :: Vec3f
  coloringType :: ColoringType
  withBB :: bool
  withNormals :: bool
  staticColor :: Vec3f
  textureID :: GLuint
  normalMapID :: GLuint
  displacementMapID :: GLuint
  enableDiffuseTexture :: bool
  enableNormalMapping :: bool
  enableDisplacementMapping :: bool
  glf :: bool
  VAO :: GLuint
  VBOv :: GLuint
  VBOn :: GLuint
  VBOf :: GLuint
  VBOc :: GLuint
  VBOt :: GLuint
  VBOtan :: GLuint
  VAObb :: GLuint
  VBOvbb :: GLuint
  VBOfbb :: GLuint
  VAOn :: GLuint
  VBOvn :: GLuint

subsection \<open>Releasing the GPU resources\<close>

definition delVAO :: "GLuint \<Rightarrow> world \<Rightarrow> world" where
  "delVAO h w = (if h \<noteq> 0 then gl (glDeleteVertexArrays h) w else w)"

definition delVBO :: "GLuint \<Rightarrow> world \<Rightarrow> world" where
  "delVBO h w = (if h \<noteq> 0 then gl (glDeleteBuffers h) w else w)"

text \<open>\<^verbatim>\<open>cleanupVBO(QOpenGLFunctions_3_3_Core *f)\<close>\<close>

definition cleanupVBO_f :: "TriangleMesh \<Rightarrow> world \<Rightarrow> TriangleMesh \<times> world" where
  "cleanupVBO_f m w =
    (let w = delVAO (VAO m) w;
         w = delVBO (VBOv m) w;
         w = delVBO (VBOn m) w;
         w = delVBO (VBOf m) w;
         w = delVBO (VBOc m) w;
         w = delVBO (VBOt m) w;
         w = delVBO (VBOtan m) w;
         w = delVAO (VAObb m) w;
         w = delVBO (VBOvbb m) w;
         w = delVBO (VBOfbb m) w;
         w = delVAO (VAOn m) w;
         w = delVBO (VBOvn m) w
     in (m\<lparr>VBOv := 0, VBOn := 0, VBOf := 0, VBOc := 0, VBOt := 0, VBOtan := 0, VAO := 0,
            VAObb := 0, VBOfbb := 0, VBOvbb := 0, VAOn := 0, VBOvn := 0\<rparr>, w))"

text \<open>\<^verbatim>\<open>cleanupVBO()\<close>: nothing happens without the OpenGL functions.\<close>

definition cleanupVBO :: "TriangleMesh \<Rightarrow> world \<Rightarrow> TriangleMesh \<times> world" where
  "cleanupVBO m w = (if \<not> glf m then (m, w) else cleanupVBO_f m w)"

definition clear :: "TriangleMesh \<Rightarrow> world \<Rightarrow> TriangleMesh \<times> world" where
  "clear m w =
    cleanupVBO
      (m\<lparr>vertices := [], triangles := [], normals := [], colors := [], texCoords := [],
         boundingBoxMin := Vec3 FLT_MAX FLT_MAX FLT_MAX,
         boundingBoxMax := Vec3 (fneg FLT_MAX) (fneg FLT_MAX) (fneg FLT_MAX),
         boundingBoxMid := vzero, boundingBoxSize := vzero,
         coloringType := STATIC_COLOR, withBB := False, withNormals := False,
         textureID := 0\<rparr>) w"

definition handles :: "TriangleMesh \<Rightarrow> GLuint list" where
  "handles m = [VAO m, VBOv m, VBOn m, VBOf m, VBOc m, VBOt m, VBOtan m,
                VAObb m, VBOvbb m, VBOfbb m, VAOn m, VBOvn m]"

definition isDelete :: "glcall \<Rightarrow> bool" where
  "isDelete c = (case c of glDeleteVertexArrays h \<Rightarrow> True | glDeleteBuffers h \<Rightarrow> True | _ \<Rightarrow> False)"

section \<open>The render state\<close>

text \<open>
  Modelled from the spec: the class \<^verbatim>\<open>RenderState\<close> of \<^verbatim>\<open>renderstate.h\<close>, which is not
  among the sources. It owns the stack of model-view matrices (the current matrix is
  the top), the projection matrix, the light position and the handles of the bound and
  of the standard shader program. Pushing duplicates the top; popping removes it and
  fails when nothing lies below. A uniform location is named by the program and the
  uniform.
\<close>

record RenderState =
  mvCurrent :: mat4
  mvStack :: "mat4 list"
  projection :: mat4
  lightPos :: Vec3f
  currentProgram :: GLuint
  standardProgram :: GLuint

definition pushModelViewMatrix :: "RenderState \<Rightarrow> RenderState" where
  "pushModelViewMatrix st = st\<lparr>mvStack := mvCurrent st # mvStack st\<rparr>"

definition popModelViewMatrix :: "RenderState \<Rightarrow> error + RenderState" where
  "popModelViewMatrix st =
     (case mvStack st of
        [] \<Rightarrow> Inl StackUnderflow
      | m # ms \<Rightarrow> Inr (st\<lparr>mvCurrent := m, mvStack := ms\<rparr>))"

definition loadIdentityModelViewMatrix :: "RenderState \<Rightarrow> RenderState" where
  "loadIdentityModelViewMatrix st = st\<lparr>mvCurrent := mat_identity\<rparr>"

definition switchToStandardProgram :: "RenderState \<Rightarrow> RenderState" where
  "switchToStandardProgram st = st\<lparr>currentProgram := standardProgram st\<rparr>"

definition setCurrentProgram :: "GLuint \<Rightarrow> RenderState \<Rightarrow> RenderState" where
  "setCurrentProgram p st = st\<lparr>currentProgram := p\<rparr>"

definition getModelViewUniform :: "RenderState \<Rightarrow> uniform" where
  "getModelViewUniform st = Uniform (currentProgram st) ''modelView''"

definition getNormalMatrixUniform :: "RenderState \<Rightarrow> uniform" where
  "getNormalMatrixUniform st = Uniform (currentProgram st) ''normalMatrix''"

definition getUseTextureUniform :: "RenderState \<Rightarrow> uniform" where
  "getUseTextureUniform st = Uniform (currentProgram st) ''useTexture''"

definition getTextureUniform :: "RenderState \<Rightarrow> uniform" where
  "getTextureUniform st = Uniform (currentProgram st) ''texture''"

definition calculateNormalMatrix :: "RenderState \<Rightarrow> mat3" where
  "calculateNormalMatrix st = NormalMatrixOf (mvCurrent st)"

definition setLightUniform :: "RenderState \<Rightarrow> world \<Rightarrow> world" where
  "setLightUniform st w =
     gl (glUniform3fv (Uniform (currentProgram st) ''lightPosition'') (lightPos st)) w"

definition translate :: "Vec3f \<Rightarrow> RenderState \<Rightarrow> RenderState" where
  "translate t st = st\<lparr>mvCurrent := mat_translate (mvCurrent st) (vx t) (vy t) (vz t)\<rparr>"

subsection \<open>View-frustum culling\<close>

datatype Plane = Plane (plane_a: float) (plane_b: float) (plane_c: float) (plane_d: float)

text \<open>\<^verbatim>\<open>Plane::normalize\<close>: the four members are divided by the length of the normal.\<close>

fun normalLength :: "Plane \<Rightarrow> float" where
  "normalLength (Plane a b c d) = fsqrt (fadd (fadd (fmul a a) (fmul b b)) (fmul c c))"

fun Plane_normalize :: "Plane \<Rightarrow> Plane" where
  "Plane_normalize (Plane a b c d) =
     (let len = normalLength (Plane a b c d)
      in Plane (fdiv a len) (fdiv b len) (fdiv c len) (fdiv d len))"

definition extractPlanes :: "(nat \<Rightarrow> float) \<Rightarrow> Plane list" where
  "extractPlanes m =
     [Plane (fsub (m 3) (m 0)) (fsub (m 7) (m 4)) (fsub (m 11) (m 8)) (fsub (m 15) (m 12)),
      Plane (fadd (m 3) (m 0)) (fadd (m 7) (m 4)) (fadd (m 11) (m 8)) (fadd (m 15) (m 12)),
      Plane (fadd (m 3) (m 1)) (fadd (m 7) (m 5)) (fadd (m 11) (m 9)) (fadd (m 15) (m 13)),
      Plane (fsub (m 3) (m 1)) (fsub (m 7) (m 5)) (fsub (m 11) (m 9)) (fsub (m 15) (m 13)),
      Plane (fadd (m 3) (m 2)) (fadd (m 7) (m 6)) (fadd (m 11) (m 10)) (fadd (m 15) (m 14)),
      Plane (fsub (m 3) (m 2)) (fsub (m 7) (m 6)) (fsub (m 11) (m 10)) (fsub (m 15) (m 14))]"

text \<open>The left side of the comparison in the innermost \<^verbatim>\<open>if\<close>, and the comparison.\<close>

fun planeValue :: "Plane \<Rightarrow> Vec3f \<Rightarrow> float" where
  "planeValue (Plane a b c d) (Vec3 x y z) =
     fadd (fadd (fadd (fmul a x) (fmul b y)) (fmul c z)) d"

definition cornerInside :: "Plane \<Rightarrow> Vec3f \<Rightarrow> bool" where
  "cornerInside plane corner = fge (planeValue plane corner) (Fin 0)"

text \<open>The loop over the corners: \<^verbatim>\<open>allOutside\<close> when it ends without a \<^verbatim>\<open>break\<close>.\<close>

fun allOutside :: "Plane \<Rightarrow> Vec3f list \<Rightarrow> bool" where
  "allOutside plane [] = True"
| "allOutside plane (corner # corners) =
     (if cornerInside plane corner then False else allOutside plane corners)"

text \<open>The loop over the planes: \<^verbatim>\<open>return false\<close> at the first plane with all corners outside.\<close>

fun testPlanes :: "Plane list \<Rightarrow> Vec3f list \<Rightarrow> bool" where
  "testPlanes [] corners = True"
| "testPlanes (plane # planes) corners =
     (if allOutside plane corners then False else testPlanes planes corners)"

definition boxCorners :: "Vec3f \<Rightarrow> Vec3f \<Rightarrow> Vec3f list" where
  "boxCorners mn mx =
     [Vec3 (vx mn) (vy mn) (vz mn), Vec3 (vx mx) (vy mn) (vz mn),
      Vec3 (vx mn) (vy mx) (vz mn), Vec3 (vx mx) (vy mx) (vz mn),
      Vec3 (vx mn) (vy mn) (vz mx), Vec3 (vx mx) (vy mn) (vz mx),
      Vec3 (vx mn) (vy mx) (vz mx), Vec3 (vx mx) (vy mx) (vz mx)]"

definition clipMatrix :: "RenderState \<Rightarrow> mat4" where
  "clipMatrix st = mat_mul (projection st) (mvCurrent st)"

definition boundingBoxIsVisible :: "TriangleMesh \<Rightarrow> RenderState \<Rightarrow> bool" where
  "boundingBoxIsVisible mesh st =
     (let m = mat_data (clipMatrix st);
          planes = map Plane_normalize (extractPlanes m);
          corners = boxCorners (boundingBoxMin mesh) (boundingBoxMax mesh)
      in testPlanes planes corners)"

text \<open>
  Modelled from the spec: all the corners lie strictly on the negative side of the
  plane.
\<close>

definition allStrictlyNegative :: "Plane \<Rightarrow> Vec3f list \<Rightarrow> bool" where
  "allStrictlyNegative plane corners =
     list_all (\<lambda>corner. fless (planeValue plane corner) (Fin 0)) corners"

subsection \<open>Drawing\<close>

text \<open>
  The \<^verbatim>\<open>switch\<close> of \<^verbatim>\<open>drawVBO\<close>. A case whose \<^verbatim>\<open>if\<close> fails runs on into the next
  label, so each label is a function and the failing case calls the next one.
\<close>

definition caseStaticColor :: "TriangleMesh \<Rightarrow> RenderState \<Rightarrow> world \<Rightarrow> world" where
  "caseStaticColor m st w =
     (let w = gl (glUniform1ui (getUseTextureUniform st) False) w;
          w = gl (glDisableVertexAttribArray COLOR_LOCATION) w;
          w = gl (glVertexAttrib3fv (Location 2) (staticColor m)) w
      in w)"

definition caseColorArray :: "TriangleMesh \<Rightarrow> RenderState \<Rightarrow> world \<Rightarrow> world" where
  "caseColorArray m st w =
     (if VBOc m \<noteq> 0 then
        (let w = gl (glUniform1ui (getUseTextureUniform st) False) w;
             w = gl (glEnableVertexAttribArray COLOR_LOCATION) w
         in w)
      else caseStaticColor m st w)"

definition caseTexture :: "TriangleMesh \<Rightarrow> RenderState \<Rightarrow> world \<Rightarrow> world" where
  "caseTexture m st w =
     (if textureID m \<noteq> 0 then
        (let w = gl (glUniform1ui (getUseTextureUniform st) True) w;
             w = gl (glActiveTexture 0) w;
             w = gl (glBindTexture (textureID m)) w;
             w = gl (glUniform1i (getTextureUniform st) 0) w
         in w)
      else caseColorArray m st w)"

definition caseBumpMapping :: "TriangleMesh \<Rightarrow> RenderState \<Rightarrow> world \<Rightarrow> world" where
  "caseBumpMapping m st w =
     (let w = gl (glDisableVertexAttribArray COLOR_LOCATION) w;
          w = gl (glVertexAttrib3fv (Location 2) (staticColor m)) w;
          program = currentProgram st;
          w = gl (glUniform1ui (Uniform program ''useDiffuse'') (enableDiffuseTexture m)) w;
          w = gl (glUniform1ui (Uniform program ''useNormal'') (enableNormalMapping m)) w;
          w = gl (glUniform1ui (Uniform program ''useDisplacement'')
                    (enableDisplacementMapping m)) w;
          w = gl (glUniform1i (Uniform program ''diffuseTexture'') 0) w;
          w = gl (glActiveTexture 0) w;
          w = gl (glBindTexture (textureID m)) w;
          w = gl (glUniform1i (Uniform program ''normalTexture'') 1) w;
          w = gl (glActiveTexture 1) w;
          w = gl (glBindTexture (normalMapID m)) w;
          w = gl (glUniform1i (Uniform program ''displacementTexture'') 3) w;
          w = gl (glActiveTexture 3) w;
          w = gl (glBindTexture (displacementMapID m)) w
      in w)"

definition drawVBO :: "TriangleMesh \<Rightarrow> RenderState \<Rightarrow> world \<Rightarrow> world" where
  "drawVBO m st w =
     (let w = gl (glBindVertexArray (VAO m)) w;
          w = gl (glUniformMatrix4fv (getModelViewUniform st) (mvCurrent st)) w;
          w = gl (glUniformMatrix3fv (getNormalMatrixUniform st) (calculateNormalMatrix st)) w;
          w = (case coloringType m of
                 TEXTURE \<Rightarrow> caseTexture m st w
               | COLOR_ARRAY \<Rightarrow> caseColorArray m st w
               | STATIC_COLOR \<Rightarrow> caseStaticColor m st w
               | BUMP_MAPPING \<Rightarrow> caseBumpMapping m st w)
      in gl (glDrawElementsTriangles (3 * length (triangles m))) w)"

text \<open>
  \<^verbatim>\<open>drawBB\<close> pushes the model-view matrix, moves and scales the copy, draws and pops
  again: the render state after the call is the one before it.
\<close>

definition drawBB :: "TriangleMesh \<Rightarrow> RenderState \<Rightarrow> world \<Rightarrow> world" where
  "drawBB m st w =
     (let w = gl (glBindVertexArray (VAObb m)) w;
          st = pushModelViewMatrix st;
          st = st\<lparr>mvCurrent := mat_translate (mvCurrent st) (vx (boundingBoxMid m))
                   (vy (boundingBoxMid m)) (vz (boundingBoxMid m))\<rparr>;
          st = st\<lparr>mvCurrent := mat_scale (mvCurrent st) (vx (boundingBoxSize m))
                   (vy (boundingBoxSize m)) (vz (boundingBoxSize m))\<rparr>;
          w = gl (glUniformMatrix4fv (getModelViewUniform st) (mvCurrent st)) w;
          w = gl (glVertexAttrib3f (Location 2) (Fin 1) (Fin 1) (Fin 1)) w
      in gl (glDrawElementsLines 24) w)"

definition drawNormals :: "TriangleMesh \<Rightarrow> RenderState \<Rightarrow> world \<Rightarrow> world" where
  "drawNormals m st w =
     (let w = gl (glBindVertexArray (VAOn m)) w;
          w = gl (glUniformMatrix4fv (getModelViewUniform st) (mvCurrent st)) w;
          w = gl (glVertexAttrib3f (Location 2) (Fin 1) (Fin 1) (Fin 1)) w
      in gl (glDrawArraysLines (length (vertices m) * 2)) w)"

text \<open>
  \<^verbatim>\<open>draw\<close> returns an \<^verbatim>\<open>unsigned int\<close>. The debug drawing runs under the standard
  program and the former program is set again afterwards, so the render state is
  unchanged by the call.
\<close>

definition draw :: "TriangleMesh \<Rightarrow> RenderState \<Rightarrow> world \<Rightarrow> 32 word \<times> world" where
  "draw m st w =
     (if \<not> boundingBoxIsVisible m st then (0, w)
      else if VAO m = 0 then (0, w)
      else
        (let w = (if withBB m \<or> withNormals m then
                    (let st' = switchToStandardProgram st;
                         w = (if withBB m then drawBB m st' w else w);
                         w = (if withNormals m then drawNormals m st' w else w)
                     in w)
                  else w);
             w = drawVBO m st w
         in (of_nat (length (triangles m)), w)))"

subsection \<open>Uploading to the GPU\<close>

definition genName :: "world \<Rightarrow> GLuint \<times> world" where
  "genName w = (Suc (glNames w), w\<lparr>glNames := Suc (glNames w)\<rparr>)"

text \<open>
  \<^verbatim>\<open>createVBO\<close>. OpenGL is taken to store what it is given, so the size it reports is
  the size of the data and the branch that deletes the buffer again is not taken.
\<close>

definition createVBO :: "target \<Rightarrow> datasize \<Rightarrow> world \<Rightarrow> GLuint \<times> world" where
  "createVBO tg dataSize w =
     (let (ident, w) = genName w;
          w = gl (glGenBuffers ident) w;
          w = gl (glBindBuffer tg ident) w;
          w = gl (glBufferData tg dataSize) w;
          w = gl (glBindBuffer tg 0) w
      in (ident, w))"

definition createBBVAO :: "TriangleMesh \<Rightarrow> world \<Rightarrow> TriangleMesh \<times> world" where
  "createBBVAO m w =
     (let (vao, w) = genName w;
          w = gl (glGenVertexArrays vao) w;
          (vbov, w) = createVBO GL_ARRAY_BUFFER BoxVerticesSize w;
          (vbof, w) = createVBO GL_ELEMENT_ARRAY_BUFFER BoxLineIndicesSize w;
          w = gl (glBindVertexArray vao) w;
          w = gl (glBindBuffer GL_ARRAY_BUFFER vbov) w;
          w = gl (glVertexAttribPointer POSITION_LOCATION 3) w;
          w = gl (glBindBuffer GL_ELEMENT_ARRAY_BUFFER vbof) w;
          w = gl (glEnableVertexAttribArray POSITION_LOCATION) w;
          w = gl (glBindVertexArray 0) w;
          w = gl (glBindBuffer GL_ARRAY_BUFFER 0) w;
          w = gl (glBindBuffer GL_ELEMENT_ARRAY_BUFFER 0) w
      in (m\<lparr>VAObb := vao, VBOvbb := vbov, VBOfbb := vbof\<rparr>, w))"

definition createNormalVAO :: "TriangleMesh \<Rightarrow> world \<Rightarrow> TriangleMesh \<times> world" where
  "createNormalVAO m w =
     (if length (vertices m) \<noteq> length (normals m) then (m, w)
      else
        (let (vao, w) = genName w;
             w = gl (glGenVertexArrays vao) w;
             (vbo, w) = createVBO GL_ARRAY_BUFFER (Bytes (2 * length (vertices m) * 12)) w;
             w = gl (glBindVertexArray vao) w;
             w = gl (glBindBuffer GL_ARRAY_BUFFER vbo) w;
             w = gl (glEnableVertexAttribArray POSITION_LOCATION) w;
             w = gl (glVertexAttribPointer POSITION_LOCATION 3) w;
             w = gl (glBindVertexArray 0) w;
             w = gl (glBindBuffer GL_ARRAY_BUFFER 0) w
         in (m\<lparr>VAOn := vao, VBOvn := vbo\<rparr>, w)))"

definition bindAttribute :: "GLuint \<Rightarrow> location \<Rightarrow> nat \<Rightarrow> world \<Rightarrow> world" where
  "bindAttribute vbo loc n w =
     (let w = gl (glBindBuffer GL_ARRAY_BUFFER vbo) w;
          w = gl (glVertexAttribPointer loc n) w
      in gl (glEnableVertexAttribArray loc) w)"

text \<open>
  \<^verbatim>\<open>createAllVBOs\<close>, in the steps it takes on the mesh and the world: the vertex array,
  the buffers of the indices, vertices and normals, the three optional buffers, the
  binding of the buffers to the vertex array, and the two auxiliary vertex arrays. A
  vector of three takes 12 bytes, a texture coordinate 8.
\<close>

definition genVAO :: "TriangleMesh \<times> world \<Rightarrow> TriangleMesh \<times> world" where
  "genVAO p =
     (let (vao, w) = genName (snd p);
          w = gl (glGenVertexArrays vao) w
      in ((fst p)\<lparr>VAO := vao\<rparr>, w))"

definition uploadGeometry :: "TriangleMesh \<times> world \<Rightarrow> TriangleMesh \<times> world" where
  "uploadGeometry p =
     (let m = fst p;
          (vbof, w) = createVBO GL_ELEMENT_ARRAY_BUFFER (Bytes (length (triangles m) * 12)) (snd p);
          (vbov, w) = createVBO GL_ARRAY_BUFFER (Bytes (length (vertices m) * 12)) w;
          (vbon, w) = createVBO GL_ARRAY_BUFFER (Bytes (length (normals m) * 12)) w
      in (m\<lparr>VBOf := vbof, VBOv := vbov, VBOn := vbon\<rparr>, w))"

definition uploadColors :: "TriangleMesh \<times> world \<Rightarrow> TriangleMesh \<times> world" where
  "uploadColors p =
     (let m = fst p
      in if length (colors m) = length (vertices m) then
           (let (vboc, w) = createVBO GL_ARRAY_BUFFER (Bytes (length (colors m) * 12)) (snd p)
            in (m\<lparr>VBOc := vboc\<rparr>, gl (glEnableVertexAttribArray COLOR_LOCATION) w))
         else p)"

definition uploadTexCoords :: "TriangleMesh \<times> world \<Rightarrow> TriangleMesh \<times> world" where
  "uploadTexCoords p =
     (let m = fst p
      in if length (texCoords m) = length (vertices m) then
           (let (vbot, w) = createVBO GL_ARRAY_BUFFER (Bytes (length (texCoords m) * 8)) (snd p)
            in (m\<lparr>VBOt := vbot\<rparr>, gl (glEnableVertexAttribArray TEXCOORD_LOCATION) w))
         else p)"

definition uploadTangents :: "TriangleMesh \<times> world \<Rightarrow> TriangleMesh \<times> world" where
  "uploadTangents p =
     (let m = fst p
      in if length (tangents m) = length (vertices m) then
           (let (vbotan, w) = createVBO GL_ARRAY_BUFFER (Bytes (length (tangents m) * 12)) (snd p)
            in (m\<lparr>VBOtan := vbotan\<rparr>, gl (glEnableVertexAttribArray TANGENT_LOCATION) w))
         else p)"

definition bindVBOs :: "TriangleMesh \<times> world \<Rightarrow> TriangleMesh \<times> world" where
  "bindVBOs p =
     (let m = fst p;
          w = gl (glBindVertexArray (VAO m)) (snd p);
          w = gl (glBindBuffer GL_ELEMENT_ARRAY_BUFFER (VBOf m)) w;
          w = bindAttribute (VBOv m) POSITION_LOCATION 3 w;
          w = bindAttribute (VBOn m) NORMAL_LOCATION 3 w;
          w = (if VBOc m \<noteq> 0 then bindAttribute (VBOc m) COLOR_LOCATION 3 w else w);
          w = (if VBOt m \<noteq> 0 then bindAttribute (VBOt m) TEXCOORD_LOCATION 2 w else w);
          w = (if VBOtan m \<noteq> 0 then bindAttribute (VBOtan m) TANGENT_LOCATION 3 w else w);
          w = gl (glBindVertexArray 0) w
      in (m, w))"

definition createAllVBOs :: "TriangleMesh \<Rightarrow> world \<Rightarrow> TriangleMesh \<times> world" where
  "createAllVBOs m w =
     (if \<not> glf m then (m, w)
      else
        (let p = genVAO (m, w);
             p = uploadGeometry p;
             p = uploadColors p;
             p = uploadTexCoords p;
             p = uploadTangents p;
             p = bindVBOs p;
             p = createBBVAO (fst p) (snd p)
         in createNormalVAO (fst p) (snd p)))"

subsection \<open>Normals, texture coordinates and the bounding box\<close>

text \<open>\<^verbatim>\<open>std::vector::resize\<close>: the elements kept stay as they are, new ones are default.\<close>

definition resize :: "nat \<Rightarrow> 'a \<Rightarrow> 'a list \<Rightarrow> 'a list" where
  "resize n d xs = take n xs @ replicate (n - length xs) d"

text \<open>The normal of one triangle: the cross product of two of its edges, not normalized.\<close>

definition triangleNormal :: "Vec3f list \<Rightarrow> nat vec3 \<Rightarrow> Vec3f" where
  "triangleNormal vs t =
     cross (vsub (vs ! vy t) (vs ! vx t)) (vsub (vs ! vz t) (vs ! vx t))"

text \<open>
  The first loop of \<^verbatim>\<open>calculateNormalsByArea\<close>, with the vertices \<open>vs\<close> and the normals
  \<open>ns\<close>. An index outside either vector is an access out of bounds.
\<close>

fun sumNormals :: "Vec3f list \<Rightarrow> nat vec3 list \<Rightarrow> Vec3f list \<Rightarrow> error + Vec3f list" where
  "sumNormals vs [] ns = Inr ns"
| "sumNormals vs (t # ts) ns =
     (let id0 = vx t; id1 = vy t; id2 = vz t
      in if id0 < length vs \<and> id1 < length vs \<and> id2 < length vs \<and>
            id0 < length ns \<and> id1 < length ns \<and> id2 < length ns
         then
           (let normal = triangleNormal vs t;
                ns = ns[id0 := vadd (ns ! id0) normal];
                ns = ns[id1 := vadd (ns ! id1) normal];
                ns = ns[id2 := vadd (ns ! id2) normal]
            in sumNormals vs ts ns)
         else Inl OutOfBounds)"

definition calculateNormalsByArea :: "TriangleMesh \<Rightarrow> error + TriangleMesh" where
  "calculateNormalsByArea m =
     (case sumNormals (vertices m) (triangles m)
             (resize (length (vertices m)) vzero (normals m)) of
        Inl e \<Rightarrow> Inl e
      | Inr ns \<Rightarrow> Inr (m\<lparr>normals := map vnormalize ns\<rparr>))"

text \<open>
  \<^verbatim>\<open>std::atan2\<close> and \<^verbatim>\<open>std::asin\<close> for \<^verbatim>\<open>float\<close>, with the results the C standard gives
  for zeros and infinities. The library's result is taken to be the exact one, rounded.
  \<open>angle y x\<close> is the magnitude of the result, which has the sign of \<open>y\<close>.
\<close>

definition angle :: "float \<Rightarrow> float \<Rightarrow> real" where
  "angle y x =
     (if isZero y then (if signbit x then pi else 0)
      else if isInf y then (if x = PInf then pi / 4 else if x = NInf then 3 * pi / 4 else pi / 2)
      else if x = PInf then 0
      else if x = NInf then pi
      else if isZero x then pi / 2
      else if 0 < val x then arctan (\<bar>val y\<bar> / val x)
      else pi - arctan (\<bar>val y\<bar> / \<bar>val x\<bar>))"

definition std_atan2 :: "float \<Rightarrow> float \<Rightarrow> float" where
  "std_atan2 y x =
     (if y = NaN \<or> x = NaN then NaN
      else if angle y x = 0 then zero_of_sign (signbit y)
      else if signbit y then fneg (rnd32 (angle y x))
      else rnd32 (angle y x))"

fun std_asin :: "float \<Rightarrow> float" where
  "std_asin (Fin a) = (if - 1 \<le> a \<and> a \<le> 1 then rnd32 (arcsin a) else NaN)"
| "std_asin NZero = NZero"
| "std_asin x = NaN"

text \<open>
  The texture coordinates of one vertex. The products with \<^verbatim>\<open>M_1_PI\<close> and the sum with
  \<^verbatim>\<open>0.5\<close> are computed in \<^verbatim>\<open>double\<close> and converted to \<^verbatim>\<open>float\<close> by the assignment.
\<close>

definition sphereMapping :: "Vec3f \<Rightarrow> Vec3f \<Rightarrow> float \<times> float" where
  "sphereMapping mid vertex =
     (let dist = vsub vertex mid;
          u = toFloat (dadd (dmul (ddiv M_1_PI (Fin 2)) (std_atan2 (vx dist) (vz dist)))
                            (Fin (1 / 2)));
          v = toFloat (dmul M_1_PI
                (std_asin (fdiv (vy dist)
                   (fsqrt (fadd (fadd (fmul (vx dist) (vx dist)) (fmul (vy dist) (vy dist)))
                                (fmul (vz dist) (vz dist)))))))
      in (u, v))"

definition calculateTexCoordsSphereMapping :: "TriangleMesh \<Rightarrow> TriangleMesh" where
  "calculateTexCoordsSphereMapping m =
     m\<lparr>texCoords := map (sphereMapping (boundingBoxMid m)) (vertices m)\<rparr>"

text \<open>One step of the loops that grow the bounding box by a vertex.\<close>

definition growMin :: "Vec3f \<Rightarrow> Vec3f \<Rightarrow> Vec3f" where
  "growMin bbMin vertex =
     Vec3 (std_min (vx vertex) (vx bbMin)) (std_min (vy vertex) (vy bbMin))
          (std_min (vz vertex) (vz bbMin))"

definition growMax :: "Vec3f \<Rightarrow> Vec3f \<Rightarrow> Vec3f" where
  "growMax bbMax vertex =
     Vec3 (std_max (vx vertex) (vx bbMax)) (std_max (vy vertex) (vy bbMax))
          (std_max (vz vertex) (vz bbMax))"

text \<open>The two lines after the loops: the middle and the size of the box.\<close>

definition setMidSize :: "TriangleMesh \<Rightarrow> TriangleMesh" where
  "setMidSize m =
     m\<lparr>boundingBoxMid := vadd (vscale (Fin (1 / 2)) (boundingBoxMin m))
                               (vscale (Fin (1 / 2)) (boundingBoxMax m)),
       boundingBoxSize := vsub (boundingBoxMax m) (boundingBoxMin m)\<rparr>"

definition calculateBB :: "TriangleMesh \<Rightarrow> TriangleMesh" where
  "calculateBB m =
     (let m = m\<lparr>boundingBoxMin := Vec3 FLT_MAX FLT_MAX FLT_MAX,
                 boundingBoxMax := Vec3 (fneg FLT_MAX) (fneg FLT_MAX) (fneg FLT_MAX),
                 boundingBoxMid := vzero, boundingBoxSize := vzero\<rparr>;
          m = m\<lparr>boundingBoxMin := foldl growMin (boundingBoxMin m) (vertices m),
                 boundingBoxMax := foldl growMax (boundingBoxMax m) (vertices m)\<rparr>
      in setMidSize m)"

subsection \<open>Loading an OFF file\<close>

text \<open>
  The input. A file that can be opened is given by its first whitespace-separated word
  (empty when the file holds none; the word is taken to be shorter than the 256
  characters of the array, so the cut by \<^verbatim>\<open>setw\<close> is not modelled) and the words after
  it. \<open>IntLit n\<close> is the word that is the decimal numeral of \<open>n\<close>, \<open>Word s\<close> the word
  of the characters \<open>s\<close>.

  A number is read from the front of a word and what is left of the word stays in the
  stream. An integer is a sign, if any, and digits. A \<^verbatim>\<open>float\<close> is a sign, if any,
  digits with at most one point among them, and after them, if any, an exponent: the
  letter e, a sign, if any, and digits. Other notations, whose reading depends on the
  library, are taken to be no numbers.
\<close>

datatype token = IntLit int | Word string

record off_file =
  header :: string
  rest :: "token list"

record ifstream =
  tokens :: "token list"
  failbit :: bool

definition isDigit :: "char \<Rightarrow> bool" where
  "isDigit c = (c \<in> set ''0123456789'')"

definition digitsValue :: "string \<Rightarrow> nat" where
  "digitsValue ds = foldl (\<lambda>n c. 10 * n + (of_char c - 48)) 0 ds"

text \<open>The sign at the front of a word, if any: whether it is a minus, and the rest.\<close>

definition signOf :: "string \<Rightarrow> bool \<times> string" where
  "signOf s =
     (case s of
        c # cs \<Rightarrow> (if c = CHR ''-'' then (True, cs) else if c = CHR ''+'' then (False, cs)
                   else (False, s))
      | [] \<Rightarrow> (False, s))"

text \<open>
  An integer numeral at the front of a word: whether it has a minus, its digits, and the
  rest of the word. There is none when there is no digit.
\<close>

definition intPrefix :: "string \<Rightarrow> (bool \<times> nat \<times> string) option" where
  "intPrefix s =
     (let (neg, s1) = signOf s
      in if takeWhile isDigit s1 = [] then None
         else Some (neg, digitsValue (takeWhile isDigit s1), dropWhile isDigit s1))"

text \<open>
  A decimal number at the front of a word: whether it has a minus, its value without
  the sign, and the rest of the word. There is none when the digits are missing, before
  and after the point or in the exponent.
\<close>

definition exponentOf :: "string \<Rightarrow> (int \<times> string) option" where
  "exponentOf s =
     (case s of
        c # cs \<Rightarrow>
          (if c = CHR ''e'' \<or> c = CHR ''E'' then
             (let (neg, s1) = signOf cs
              in if takeWhile isDigit s1 = [] then None
                 else Some (if neg then - int (digitsValue (takeWhile isDigit s1))
                            else int (digitsValue (takeWhile isDigit s1)),
                            dropWhile isDigit s1))
           else Some (0, s))
      | [] \<Rightarrow> Some (0, s))"

definition floatPrefix :: "string \<Rightarrow> (bool \<times> real \<times> string) option" where
  "floatPrefix s =
     (let (neg, s1) = signOf s;
          whole = takeWhile isDigit s1;
          s2 = dropWhile isDigit s1;
          fraction = (case s2 of c # cs \<Rightarrow> (if c = CHR ''.'' then takeWhile isDigit cs else [])
                      | [] \<Rightarrow> []);
          s3 = (case s2 of c # cs \<Rightarrow> (if c = CHR ''.'' then dropWhile isDigit cs else s2)
                | [] \<Rightarrow> s2)
      in if whole @ fraction = [] then None
         else case exponentOf s3 of
                None \<Rightarrow> None
              | Some (e, s4) \<Rightarrow>
                  Some (neg, real (digitsValue (whole @ fraction)) *
                               10 powi (e - int (length fraction)), s4))"

text \<open>What is left in the stream after a part of its first word was read.\<close>

definition leftOver :: "string \<Rightarrow> token list \<Rightarrow> token list" where
  "leftOver s ts = (if s = [] then ts else Word s # ts)"

text \<open>
  Extraction follows the stream's rules. Once the fail bit is set, or when no word is
  left, nothing is stored and the target keeps what it held. An extraction that finds no
  number stores zero and sets the fail bit; a number that does not fit the type stores
  the nearest bound and sets the fail bit. For an \<^verbatim>\<open>int\<close> the target may hold no value
  yet, which is \<open>None\<close>.
\<close>

definition storeInt :: "int \<Rightarrow> ifstream \<Rightarrow> token list \<Rightarrow> int option \<times> ifstream" where
  "storeInt n inp ts =
     (if n < - (2 ^ 31) then (Some (- (2 ^ 31)), inp\<lparr>tokens := ts, failbit := True\<rparr>)
      else if 2 ^ 31 \<le> n then (Some (2 ^ 31 - 1), inp\<lparr>tokens := ts, failbit := True\<rparr>)
      else (Some n, inp\<lparr>tokens := ts\<rparr>))"

definition extractInt :: "int option \<Rightarrow> ifstream \<Rightarrow> int option \<times> ifstream" where
  "extractInt old inp =
     (if failbit inp then (old, inp)
      else case tokens inp of
        [] \<Rightarrow> (old, inp\<lparr>failbit := True\<rparr>)
      | IntLit n # ts \<Rightarrow> storeInt n inp ts
      | Word s # ts \<Rightarrow>
          (case intPrefix s of
             None \<Rightarrow> (Some 0, inp\<lparr>failbit := True\<rparr>)
           | Some (neg, n, s') \<Rightarrow>
               storeInt (if neg then - int n else int n) inp (leftOver s' ts)))"

definition storeUInt :: "int \<Rightarrow> ifstream \<Rightarrow> token list \<Rightarrow> nat \<times> ifstream" where
  "storeUInt n inp ts =
     (if n \<le> - (2 ^ 32) \<or> 2 ^ 32 \<le> n then (2 ^ 32 - 1, inp\<lparr>tokens := ts, failbit := True\<rparr>)
      else (nat (n mod 2 ^ 32), inp\<lparr>tokens := ts\<rparr>))"

definition extractUInt :: "nat \<Rightarrow> ifstream \<Rightarrow> nat \<times> ifstream" where
  "extractUInt old inp =
     (if failbit inp then (old, inp)
      else case tokens inp of
        [] \<Rightarrow> (old, inp\<lparr>failbit := True\<rparr>)
      | IntLit n # ts \<Rightarrow> storeUInt n inp ts
      | Word s # ts \<Rightarrow>
          (case intPrefix s of
             None \<Rightarrow> (0, inp\<lparr>failbit := True\<rparr>)
           | Some (neg, n, s') \<Rightarrow>
               storeUInt (if neg then - int n else int n) inp (leftOver s' ts)))"

text \<open>The value read is the number written, rounded to \<^verbatim>\<open>float\<close>.\<close>

definition storeFloat :: "bool \<Rightarrow> real \<Rightarrow> ifstream \<Rightarrow> token list \<Rightarrow> float \<times> ifstream" where
  "storeFloat neg r inp ts =
     (if r = 0 then (zero_of_sign neg, inp\<lparr>tokens := ts\<rparr>)
      else if rnd32 r = PInf then
        ((if neg then fneg FLT_MAX else FLT_MAX), inp\<lparr>tokens := ts, failbit := True\<rparr>)
      else ((if neg then fneg (rnd32 r) else rnd32 r), inp\<lparr>tokens := ts\<rparr>))"

definition extractFloat :: "float \<Rightarrow> ifstream \<Rightarrow> float \<times> ifstream" where
  "extractFloat old inp =
     (if failbit inp then (old, inp)
      else case tokens inp of
        [] \<Rightarrow> (old, inp\<lparr>failbit := True\<rparr>)
      | IntLit n # ts \<Rightarrow> storeFloat (n < 0) \<bar>of_int n\<bar> inp ts
      | Word s # ts \<Rightarrow>
          (case floatPrefix s of
             None \<Rightarrow> (Fin 0, inp\<lparr>failbit := True\<rparr>)
           | Some (neg, r, s') \<Rightarrow> storeFloat neg r inp (leftOver s' ts)))"

text \<open>The character array \<^verbatim>\<open>s\<close>: the word, then the terminating zero.\<close>

definition charAt :: "string \<Rightarrow> nat \<Rightarrow> char" where
  "charAt s i = (if i < length s then s ! i else CHR 0x00)"

definition headerIsOFF :: "string \<Rightarrow> bool" where
  "headerIsOFF s = (charAt s 0 = CHR ''O'' \<and> charAt s 1 = CHR ''F'' \<and> charAt s 2 = CHR ''F'')"

definition headerIsNOFF :: "string \<Rightarrow> bool" where
  "headerIsNOFF s =
     (charAt s 0 = CHR ''N'' \<and> charAt s 1 = CHR ''O'' \<and> charAt s 2 = CHR ''F'' \<and>
      charAt s 3 = CHR ''F'')"

text \<open>The loop that reads the vertices, over the values of \<^verbatim>\<open>i\<close>.\<close>

fun readVertices ::
  "bool \<Rightarrow> nat list \<Rightarrow> ifstream \<Rightarrow> TriangleMesh \<Rightarrow> error + (ifstream \<times> TriangleMesh)" where
  "readVertices noff [] inp m = Inr (inp, m)"
| "readVertices noff (i # is) inp m =
     (if \<not> i < length (vertices m) then Inl OutOfBounds
      else
        (let (x, inp) = extractFloat (vx (vertices m ! i)) inp;
             (y, inp) = extractFloat (vy (vertices m ! i)) inp;
             (z, inp) = extractFloat (vz (vertices m ! i)) inp;
             m = m\<lparr>vertices := (vertices m)[i := Vec3 x y z]\<rparr>;
             m = m\<lparr>boundingBoxMin := growMin (boundingBoxMin m) (vertices m ! i),
                    boundingBoxMax := growMax (boundingBoxMax m) (vertices m ! i)\<rparr>
         in if noff then
              (if \<not> i < length (normals m) then Inl OutOfBounds
               else
                 (let (a, inp) = extractFloat (vx (normals m ! i)) inp;
                      (b, inp) = extractFloat (vy (normals m ! i)) inp;
                      (c, inp) = extractFloat (vz (normals m ! i)) inp;
                      m = m\<lparr>normals := (normals m)[i := Vec3 a b c]\<rparr>
                  in readVertices noff is inp m))
            else readVertices noff is inp m))"

fun readTriangles ::
  "nat list \<Rightarrow> ifstream \<Rightarrow> TriangleMesh \<Rightarrow> error + (ifstream \<times> TriangleMesh)" where
  "readTriangles [] inp m = Inr (inp, m)"
| "readTriangles (i # is) inp m =
     (if \<not> i < length (triangles m) then Inl OutOfBounds
      else
        (let (three, inp) = extractInt None inp;
             (a, inp) = extractUInt (vx (triangles m ! i)) inp;
             (b, inp) = extractUInt (vy (triangles m ! i)) inp;
             (c, inp) = extractUInt (vz (triangles m ! i)) inp;
             m = m\<lparr>triangles := (triangles m)[i := Vec3 a b c]\<rparr>
         in readTriangles is inp m))"

text \<open>
  \<^verbatim>\<open>loadOFF\<close> from the counts on, once the tag has been accepted. The counts are
  variables without an initial value; \<^verbatim>\<open>nf\<close> is looked at only when \<^verbatim>\<open>nv\<close> is
  positive. Memory is taken to suffice for every \<^verbatim>\<open>resize\<close>.
\<close>

definition loadBody ::
  "bool \<Rightarrow> ifstream \<Rightarrow> bool \<Rightarrow> TriangleMesh \<Rightarrow> world \<Rightarrow> error + (TriangleMesh \<times> world)" where
  "loadBody noff inp createVBOs m w =
     (let (nv, inp) = extractInt None inp;
          (nf, inp) = extractInt None inp;
          (ne, inp) = extractInt None inp
      in case nv of
           None \<Rightarrow> Inl Uninitialized
         | Some nv \<Rightarrow>
             if nv \<le> 0 then Inr (m, w)
             else case nf of
               None \<Rightarrow> Inl Uninitialized
             | Some nf \<Rightarrow>
                 if nf \<le> 0 then Inr (m, w)
                 else
                   andThen (readVertices noff [0..<nat nv] inp
                              (m\<lparr>vertices := resize (nat nv) vzero (vertices m)\<rparr>)) (\<lambda>(inp, m).
                   andThen (readTriangles [0..<nat nf] inp
                              ((setMidSize m)\<lparr>triangles :=
                                  resize (nat nf) (Vec3 0 0 0) (triangles m)\<rparr>)) (\<lambda>(inp, m).
                   andThen (if \<not> noff then calculateNormalsByArea m else Inr m) (\<lambda>m.
                     (let m = calculateTexCoordsSphereMapping m
                      in Inr (if createVBOs then createAllVBOs m w else (m, w)))))))"

definition loadOFF ::
  "string \<Rightarrow> off_file option \<Rightarrow> bool \<Rightarrow> TriangleMesh \<Rightarrow> world \<Rightarrow> error + (TriangleMesh \<times> world)" where
  "loadOFF filename file createVBOs m w =
     (let (m, w) = clear m w
      in case file of
           None \<Rightarrow> Inr (m, print [Str ''loadOFF: can not find '', Str filename, Endl] w)
         | Some f \<Rightarrow>
             (let s = header f;
                  inp = \<lparr>tokens = rest f, failbit = (s = [])\<rparr>
              in if headerIsOFF s then loadBody False inp createVBOs m w
                 else if headerIsNOFF s then loadBody True inp createVBOs m w
                 else Inr (m, w)))"




subsection \<open>The sphere\<close>




definition floatOfInt :: "int \<Rightarrow> float" where
  "floatOfInt i = rnd32 (of_int i)"






subsection \<open>The terrain\<close>

text \<open>
  A \<^verbatim>\<open>for\<close> loop over an \<^verbatim>\<open>int\<close> counter: \<^verbatim>\<open>for (int i = i0; i < bound; i += step)\<close>.
  A loop with the condition \<^verbatim>\<open>i <= n\<close> has the bound \<open>n + 1\<close>. A counter that leaves
  the range of \<^verbatim>\<open>int\<close> is a signed overflow; a step that is not positive would never
  end the loop.
\<close>

function forLoop :: "int \<Rightarrow> int \<Rightarrow> int \<Rightarrow> (int \<Rightarrow> 's \<Rightarrow> error + 's) \<Rightarrow> 's \<Rightarrow> error + 's" where
  "forLoop i bound step body s =
     (if i < bound then
        (if step \<le> 0 then Inl NonTermination
         else case body i s of
                Inl e \<Rightarrow> Inl e
              | Inr s' \<Rightarrow>
                  (if 2 ^ 31 \<le> i + step then Inl SignedOverflow
                   else forLoop (i + step) bound step body s'))
      else Inr s)"
  by pat_completeness auto
termination
  by (relation "measure (\<lambda>(i, bound, step, body, s). nat (bound - i))") auto

declare forLoop.simps [simp del]

text \<open>
  The height map is a vector of \<open>w + 1\<close> vectors of \<open>h + 1\<close> heights; an index outside
  either vector is an access out of bounds. \<open>gen\<close> is the sequence of values that
  \<^verbatim>\<open>dist(gen)\<close> returns, \<open>drawn\<close> counts how many have been drawn.
\<close>

record terrain =
  heightmap :: "float list list"
  drawn :: nat

definition hmGet :: "float list list \<Rightarrow> int \<Rightarrow> int \<Rightarrow> error + float" where
  "hmGet hm x z =
     (if 0 \<le> x \<and> nat x < length hm \<and> 0 \<le> z \<and> nat z < length (hm ! nat x)
      then Inr (hm ! nat x ! nat z) else Inl OutOfBounds)"

definition hmSet :: "int \<Rightarrow> int \<Rightarrow> float \<Rightarrow> terrain \<Rightarrow> error + terrain" where
  "hmSet x z v st =
     (if 0 \<le> x \<and> nat x < length (heightmap st) \<and> 0 \<le> z \<and>
         nat z < length (heightmap st ! nat x)
      then Inr (st\<lparr>heightmap := (heightmap st)[nat x := (heightmap st ! nat x)[nat z := v]]\<rparr>)
      else Inl OutOfBounds)"

definition dist_gen :: "(nat \<Rightarrow> real) \<Rightarrow> terrain \<Rightarrow> float \<times> terrain" where
  "dist_gen gen st = (Fin (gen (drawn st)), st\<lparr>drawn := Suc (drawn st)\<rparr>)"

definition seedCorner :: "(nat \<Rightarrow> real) \<Rightarrow> int \<Rightarrow> int \<Rightarrow> terrain \<Rightarrow> error + terrain" where
  "seedCorner gen x z st = (let (r, st) = dist_gen gen st in hmSet x z r st)"

definition randomOffset :: "(nat \<Rightarrow> real) \<Rightarrow> float \<Rightarrow> terrain \<Rightarrow> float \<times> terrain" where
  "randomOffset gen roughness st =
     (let (r, st) = dist_gen gen st
      in (fsub (fmul r roughness) (fmul roughness (Fin (1 / 2))), st))"

text \<open>The body of the diamond step at \<open>(x, z)\<close>.\<close>

definition diamondCell ::
  "(nat \<Rightarrow> real) \<Rightarrow> float \<Rightarrow> int \<Rightarrow> int \<Rightarrow> int \<Rightarrow> terrain \<Rightarrow> error + terrain" where
  "diamondCell gen roughness halfStep x z st =
     andThen (hmGet (heightmap st) (x - halfStep) (z - halfStep)) (\<lambda>a.
     andThen (hmGet (heightmap st) (x + halfStep) (z - halfStep)) (\<lambda>b.
     andThen (hmGet (heightmap st) (x - halfStep) (z + halfStep)) (\<lambda>c.
     andThen (hmGet (heightmap st) (x + halfStep) (z + halfStep)) (\<lambda>d.
       (let avg = fmul (fadd (fadd (fadd a b) c) d) (Fin (1 / 4));
            (offset, st) = randomOffset gen roughness st
        in hmSet x z (fadd avg offset) st)))))"

text \<open>One of the four guarded reads of the square step.\<close>

definition addNeighbour ::
  "bool \<Rightarrow> float list list \<Rightarrow> int \<Rightarrow> int \<Rightarrow> float \<times> int \<Rightarrow> error + float \<times> int" where
  "addNeighbour guard hm x z sc =
     (if guard then andThen (hmGet hm x z) (\<lambda>v. Inr (fadd (fst sc) v, snd sc + 1))
      else Inr sc)"

text \<open>The body of the square step at \<open>(x, z)\<close>, with \<open>W = (int)w\<close> and \<open>H = (int)h\<close>.\<close>

definition squareCell ::
  "(nat \<Rightarrow> real) \<Rightarrow> float \<Rightarrow> int \<Rightarrow> int \<Rightarrow> int \<Rightarrow> int \<Rightarrow> int \<Rightarrow> terrain \<Rightarrow> error + terrain" where
  "squareCell gen roughness W H halfStep x z st =
     andThen (addNeighbour (x - halfStep \<ge> 0 \<and> z - halfStep \<ge> 0) (heightmap st)
                (x - halfStep) (z - halfStep) (Fin 0, 0)) (\<lambda>sc.
     andThen (addNeighbour (x + halfStep \<le> W \<and> z - halfStep \<ge> 0) (heightmap st)
                (x + halfStep) (z - halfStep) sc) (\<lambda>sc.
     andThen (addNeighbour (x - halfStep \<ge> 0 \<and> z + halfStep \<le> H) (heightmap st)
                (x - halfStep) (z + halfStep) sc) (\<lambda>sc.
     andThen (addNeighbour (x + halfStep \<le> W \<and> z + halfStep \<le> H) (heightmap st)
                (x + halfStep) (z + halfStep) sc) (\<lambda>sc.
       (let avg = (if snd sc > 0 then fdiv (fst sc) (floatOfInt (snd sc)) else Fin 0);
            (offset, st) = randomOffset gen roughness st
        in hmSet x z (fadd avg offset) st)))))"

definition diamondStep ::
  "(nat \<Rightarrow> real) \<Rightarrow> float \<Rightarrow> int \<Rightarrow> int \<Rightarrow> int \<Rightarrow> terrain \<Rightarrow> error + terrain" where
  "diamondStep gen roughness W H stepSize st =
     (let halfStep = stepSize div 2
      in forLoop halfStep W stepSize
           (\<lambda>x. forLoop halfStep H stepSize (diamondCell gen roughness halfStep x)) st)"

definition squareStep ::
  "(nat \<Rightarrow> real) \<Rightarrow> float \<Rightarrow> int \<Rightarrow> int \<Rightarrow> int \<Rightarrow> terrain \<Rightarrow> error + terrain" where
  "squareStep gen roughness W H stepSize st =
     (let halfStep = stepSize div 2
      in forLoop 0 (W + 1) halfStep
           (\<lambda>x. forLoop (if (x div halfStep) mod 2 = 0 then halfStep else 0) (H + 1) stepSize
                   (squareCell gen roughness W H halfStep x)) st)"

text \<open>The \<^verbatim>\<open>while (stepSize > 1)\<close> loop.\<close>

function diamondSquare ::
  "(nat \<Rightarrow> real) \<Rightarrow> int \<Rightarrow> int \<Rightarrow> int \<Rightarrow> float \<Rightarrow> terrain \<Rightarrow> error + terrain" where
  "diamondSquare gen W H stepSize roughness st =
     (if stepSize > 1 then
        andThen (diamondStep gen roughness W H stepSize st) (\<lambda>st.
        andThen (squareStep gen roughness W H stepSize st) (\<lambda>st.
          diamondSquare gen W H (stepSize div 2) (fmul roughness (Fin (1 / 2))) st))
      else Inr st)"
  by pat_completeness auto
termination
  by (relation "measure (\<lambda>(gen, W, H, stepSize, roughness, st). nat stepSize)") auto

declare diamondSquare.simps [simp del]

text \<open>\<^verbatim>\<open>std::clamp(v, lo, hi)\<close> is \<^verbatim>\<open>(v < lo) ? lo : (hi < v) ? hi : v\<close>.\<close>

definition std_clamp :: "float \<Rightarrow> float \<Rightarrow> float \<Rightarrow> float" where
  "std_clamp v lo hi = (if fless v lo then lo else if fless hi v then hi else v)"

definition computeColor :: "float \<Rightarrow> Vec3f" where
  "computeColor heightValue0 =
     (let heightValue = std_clamp heightValue0 (Fin 0) (Fin 10)
      in if fless heightValue (Fin (3 / 2)) then Vec3 (Fin 0) (Fin 0) (Fin 1)
         else if fless heightValue (Fin (5 / 2))
         then Vec3 (Fin (1 / 2)) (rnd32 (35 / 100)) (rnd32 (5 / 100))
         else if fless heightValue (Fin 4) then Vec3 (Fin 0) (rnd32 (7 / 10)) (Fin 0)
         else if fless heightValue (Fin 6) then Vec3 (Fin (1 / 2)) (Fin (1 / 2)) (Fin (1 / 2))
         else Vec3 (Fin 1) (Fin 1) (Fin 1))"

text \<open>The body of the loop that emits one vertex per point of the height map.\<close>

definition emitVertex :: "float list list \<Rightarrow> int \<Rightarrow> int \<Rightarrow> TriangleMesh \<Rightarrow> error + TriangleMesh" where
  "emitVertex hm z x m =
     andThen (hmGet hm x z) (\<lambda>y.
       Inr (m\<lparr>vertices := vertices m @ [Vec3 (floatOfInt x) y (floatOfInt z)],
              normals := normals m @ [Vec3 (Fin 0) (Fin 1) (Fin 0)],
              colors := colors m @ [computeColor y]\<rparr>))"

text \<open>
  The body of the loop that emits two triangles per cell. The indices are computed in
  \<^verbatim>\<open>unsigned int\<close>.
\<close>

definition emitCell :: "32 word \<Rightarrow> int \<Rightarrow> int \<Rightarrow> TriangleMesh \<Rightarrow> error + TriangleMesh" where
  "emitCell w z x m =
     (let i0 = word_of_int z * (w + 1) + word_of_int x;
          i1 = i0 + 1;
          i2 = word_of_int (z + 1) * (w + 1) + word_of_int x;
          i3 = i2 + 1
      in Inr (m\<lparr>triangles := triangles m @
                 [Vec3 (unat i0) (unat i2) (unat i1), Vec3 (unat i1) (unat i2) (unat i3)]\<rparr>))"

text \<open>
  \<^verbatim>\<open>generateTerrain(h, w, iterations)\<close>: the height is the first parameter, the width
  the second. First the height map (steps 2 to 4 of the source), then the mesh of the
  height map (step 5), then the normals, the bounding box and the upload.
\<close>

definition buildHeightmap :: "32 word \<Rightarrow> 32 word \<Rightarrow> (nat \<Rightarrow> real) \<Rightarrow> error + terrain" where
  "buildHeightmap h w gen =
     (let st = \<lparr>heightmap = replicate (unat (w + 1)) (replicate (unat (h + 1)) (Fin 0)),
                drawn = 0\<rparr>
      in andThen (seedCorner gen 0 0 st) (\<lambda>st.
         andThen (seedCorner gen (uint w) 0 st) (\<lambda>st.
         andThen (seedCorner gen 0 (uint h) st) (\<lambda>st.
         andThen (seedCorner gen (uint w) (uint h) st) (\<lambda>st.
           diamondSquare gen (sint w) (sint h) (sint (max w h)) (Fin 3) st)))))"

definition buildMesh ::
  "32 word \<Rightarrow> 32 word \<Rightarrow> float list list \<Rightarrow> TriangleMesh \<Rightarrow> error + TriangleMesh" where
  "buildMesh h w hm m =
     andThen (forLoop 0 (sint h + 1) 1 (\<lambda>z. forLoop 0 (sint w + 1) 1 (emitVertex hm z)) m) (\<lambda>m.
       forLoop 0 (sint h) 1 (\<lambda>z. forLoop 0 (sint w) 1 (emitCell w z)) m)"

definition generateTerrain ::
  "32 word \<Rightarrow> 32 word \<Rightarrow> 32 word \<Rightarrow> (nat \<Rightarrow> real) \<Rightarrow> TriangleMesh \<Rightarrow> world
     \<Rightarrow> error + (TriangleMesh \<times> world)" where
  "generateTerrain h w iterations gen m wld =
     (let (m, wld) = clear m wld
      in andThen (buildHeightmap h w gen) (\<lambda>st.
         andThen (buildMesh h w (heightmap st) m) (\<lambda>m.
         andThen (calculateNormalsByArea m) (\<lambda>m.
           Inr (createAllVBOs (calculateBB m) wld)))))"

section \<open>The paint loop\<close>

text \<open>
  The members of \<^verbatim>\<open>OpenGLView\<close> that \<^verbatim>\<open>paintGL\<close> uses. What the frame takes from
  outside is gathered in \<open>frame\<close>: the toolkit's \<^verbatim>\<open>lookAt\<close>, the milliseconds since
  the light moved last, and the rotation \<^verbatim>\<open>rotY\<close> of \<^verbatim>\<open>vec3.h\<close>.
\<close>

record OpenGLView =
  objectPositions :: "Vec3f list"
  mesh_drawn :: int
  mesh_culled :: int
  cameraPos :: Vec3f
  cameraDir :: Vec3f
  trianglesLastRun :: "32 word"
  meshes :: "TriangleMesh list"
  sphereMesh :: TriangleMesh
  bumpSphereMesh :: TriangleMesh
  csVAO :: GLuint
  gridSize :: int
  lightMotionSpeed :: float
  frameCounter :: "32 word"
  lightMoves :: bool
  currentProgramID :: GLuint
  bumpProgramID :: GLuint
  state :: RenderState

record frame =
  lookAt :: "mat4 \<Rightarrow> Vec3f \<Rightarrow> Vec3f \<Rightarrow> Vec3f \<Rightarrow> mat4"
  elapsed :: int
  rotY :: "float \<Rightarrow> Vec3f \<Rightarrow> Vec3f"

datatype signal = triangleCountChanged "32 word"

definition drawCS :: "OpenGLView \<Rightarrow> RenderState \<Rightarrow> world \<Rightarrow> world" where
  "drawCS v st w =
     (let w = gl (glUniformMatrix4fv (getModelViewUniform st) (mvCurrent st)) w;
          w = gl (glBindVertexArray (csVAO v)) w;
          w = gl (glDrawArraysLines 6) w
      in gl (glBindVertexArray 0) w)"

definition moveLight :: "OpenGLView \<Rightarrow> frame \<Rightarrow> RenderState \<Rightarrow> RenderState" where
  "moveLight v fr st =
     st\<lparr>lightPos := rotY fr (fmul (lightMotionSpeed v)
                                (fdiv (floatOfInt (elapsed fr)) (Fin 1000))) (lightPos st)\<rparr>"

definition drawLight :: "OpenGLView \<Rightarrow> RenderState \<Rightarrow> world \<Rightarrow> error + RenderState \<times> world" where
  "drawLight v st w =
     (let st = pushModelViewMatrix st;
          st = translate (lightPos st) st;
          (n, w) = draw (sphereMesh v) st w
      in andThen (popModelViewMatrix st) (\<lambda>st. Inr (st, w)))"

text \<open>The state of the loop over the instances of the first mesh.\<close>

record instances =
  istate :: RenderState
  culled :: int
  trianglesDrawn :: "32 word"
  iworld :: world

text \<open>
  The body of that loop. \<^verbatim>\<open>triangles_check\<close> is an \<^verbatim>\<open>int\<close> that goes back into the
  \<^verbatim>\<open>unsigned int\<close> sum, so the sum takes the value \<^verbatim>\<open>draw\<close> returned.
\<close>

definition drawInstance :: "OpenGLView \<Rightarrow> int \<Rightarrow> instances \<Rightarrow> error + instances" where
  "drawInstance v i s =
     (if \<not> (0 \<le> i \<and> nat i < length (objectPositions v)) then Inl OutOfBounds
      else if meshes v = [] then Inl OutOfBounds
      else
        (let st = translate (objectPositions v ! nat i) (istate s);
             (n, w) = draw (meshes v ! 0) st (iworld s);
             triangles_check = sint n
         in Inr (s\<lparr>istate := st,
                   culled := (if triangles_check = 0 then culled s + 1 else culled s),
                   trianglesDrawn := trianglesDrawn s + word_of_int triangles_check,
                   iworld := w\<rparr>)))"

text \<open>The body of the loop over the other meshes.\<close>

definition drawOther :: "RenderState \<Rightarrow> 32 word \<times> world \<Rightarrow> TriangleMesh \<Rightarrow> 32 word \<times> world" where
  "drawOther st tw m = (let (n, w) = draw m st (snd tw) in (fst tw + n, w))"

text \<open>
  The end of a frame: the signal is emitted, and the total recorded, when the total
  differs from the recorded one.
\<close>

definition notify :: "32 word \<Rightarrow> OpenGLView \<Rightarrow> signal list \<times> OpenGLView" where
  "notify n v =
     (if n \<noteq> trianglesLastRun v
      then ([triangleCountChanged n], v\<lparr>trianglesLastRun := n\<rparr>)
      else ([], v))"

text \<open>\<^verbatim>\<open>paintGL\<close> up to the comparison of the totals: everything is drawn and counted.\<close>

definition drawScene :: "frame \<Rightarrow> OpenGLView \<Rightarrow> world \<Rightarrow> error + instances" where
  "drawScene fr v w =
     (let w = gl glClear w;
          st = loadIdentityModelViewMatrix (state v);
          cameraLookAt = vadd (cameraPos v) (cameraDir v);
          st = st\<lparr>mvCurrent := lookAt fr (mvCurrent st) (cameraPos v) cameraLookAt
                                  (Vec3 (Fin 0) (Fin 1) (Fin 0))\<rparr>;
          st = switchToStandardProgram st;
          w = drawCS v st w;
          st = (if lightMoves v then moveLight v fr st else st)
      in andThen (drawLight v st w) (\<lambda>(st, w).
           (let st = setCurrentProgram (bumpProgramID v) st;
                st = pushModelViewMatrix st;
                w = setLightUniform st w;
                st = translate (Vec3 (Fin 0) (Fin 5) (Fin 0)) st;
                (n, w) = draw (bumpSphereMesh v) st w
            in andThen (popModelViewMatrix st) (\<lambda>st.
                 (let st = setCurrentProgram (currentProgramID v) st;
                      w = setLightUniform st w;
                      st = pushModelViewMatrix st
                  in if gridSize v * 5 < - (2 ^ 31) \<or> 2 ^ 31 \<le> gridSize v * 5
                     then Inl SignedOverflow
                     else
                       andThen (forLoop 0 (gridSize v * 5) 1 (drawInstance v)
                                  \<lparr>istate = st, culled = 0, trianglesDrawn = 0 + n,
                                   iworld = w\<rparr>) (\<lambda>s.
                       andThen (popModelViewMatrix (istate s)) (\<lambda>st.
                         (let (n, w) = foldl (drawOther st) (trianglesDrawn s, iworld s)
                                         (tl (meshes v))
                          in Inr (s\<lparr>istate := st, trianglesDrawn := n, iworld := w\<rparr>)))))))))"

definition paintGL ::
  "frame \<Rightarrow> OpenGLView \<Rightarrow> world \<Rightarrow> error + (signal list \<times> OpenGLView \<times> world)" where
  "paintGL fr v w =
     andThen (drawScene fr v w) (\<lambda>s.
       (let v = v\<lparr>mesh_culled := culled s\<rparr>;
            (signals, v) = notify (trianglesDrawn s) v;
            v = v\<lparr>mesh_drawn := gridSize v * 5 - mesh_culled v\<rparr>;
            w = print [Str ''Number of Objects Culled: '', Num (mesh_culled v), Endl] (iworld s);
            w = print [Str ''Number of Objects Drawn: '', Num (mesh_drawn v), Endl] w;
            v = v\<lparr>frameCounter := frameCounter v + 1, state := istate s\<rparr>
        in Inr (signals, v, w)))"

text \<open>
  A run of frames, each painted on the view the frame before it left: the total and the
  signals of each frame. \<open>expected\<close> is the notification the claim asks for.
\<close>

fun paintFrames ::
  "frame list \<Rightarrow> OpenGLView \<Rightarrow> world \<Rightarrow> error + (32 word \<times> signal list) list" where
  "paintFrames [] v w = Inr []"
| "paintFrames (fr # frs) v w =
     andThen (drawScene fr v w) (\<lambda>s.
     andThen (paintGL fr v w) (\<lambda>(signals, v', w').
     andThen (paintFrames frs v' w') (\<lambda>res. Inr ((trianglesDrawn s, signals) # res))))"

definition expected :: "32 word \<Rightarrow> 32 word \<Rightarrow> signal list" where
  "expected recorded n = (if n \<noteq> recorded then [triangleCountChanged n] else [])"

text \<open>
  What the spec asks of the first pass, for one vertex: the normal of every triangle, in
  the order of the triangles, once for each corner of the triangle that is the vertex.
\<close>

definition contributions :: "Vec3f list \<Rightarrow> nat vec3 list \<Rightarrow> nat \<Rightarrow> Vec3f list" where
  "contributions vs ts i =
     concat (map (\<lambda>t. replicate (count_list [vx t, vy t, vz t] i) (triangleNormal vs t)) ts)"

text \<open>
  What a call of \<^verbatim>\<open>loadOFF\<close> left in the vertices, and as the minimum and the maximum
  of the bounding box, when it returned.
\<close>

definition loadedVertices :: "error + (TriangleMesh \<times> world) \<Rightarrow> Vec3f list option" where
  "loadedVertices r = (case r of Inl e \<Rightarrow> None | Inr mw \<Rightarrow> Some (vertices (fst mw)))"


section \<open>The invariant of the bounding box\<close>









section \<open>Concrete states for the examples\<close>

definition mesh0 :: TriangleMesh where
  "mesh0 = \<lparr>vertices = [], triangles = [], normals = [], colors = [], texCoords = [],
     tangents = [],
     boundingBoxMin = Vec3 FLT_MAX FLT_MAX FLT_MAX,
     boundingBoxMax = Vec3 (fneg FLT_MAX) (fneg FLT_MAX) (fneg FLT_MAX),
     boundingBoxMid = vzero, boundingBoxSize = vzero,
     coloringType = STATIC_COLOR, withBB = False, withNormals = False,
     staticColor = Vec3 (Fin 1) (Fin 1) (Fin 1),
     textureID = 0, normalMapID = 0, displacementMapID = 0,
     enableDiffuseTexture = False, enableNormalMapping = False,
     enableDisplacementMapping = False, glf = True,
     VAO = 0, VBOv = 0, VBOn = 0, VBOf = 0, VBOc = 0, VBOt = 0, VBOtan = 0,
     VAObb = 0, VBOvbb = 0, VBOfbb = 0, VAOn = 0, VBOvn = 0\<rparr>"

definition world0 :: world where
  "world0 = \<lparr>glLog = [], glNames = 0, cout = []\<rparr>"

definition state0 :: RenderState where
  "state0 = \<lparr>mvCurrent = mat_identity, mvStack = [], projection = mat_identity,
     lightPos = Vec3 (Fin 0) (Fin 5) (Fin 20), currentProgram = 1, standardProgram = 1\<rparr>"

definition boxMesh :: "real \<Rightarrow> TriangleMesh" where
  "boxMesh c = mesh0\<lparr>boundingBoxMin := Vec3 (Fin (c - 1 / 2)) (Fin (c - 1 / 2)) (Fin (c - 1 / 2)),
                    boundingBoxMax := Vec3 (Fin (c + 1 / 2)) (Fin (c + 1 / 2)) (Fin (c + 1 / 2)),
                    boundingBoxMid := Vec3 (Fin c) (Fin c) (Fin c),
                    boundingBoxSize := Vec3 (Fin 1) (Fin 1) (Fin 1)\<rparr>"

definition zeroState :: RenderState where
  "zeroState = state0\<lparr>projection := (\<lambda>c r. Fin 0)\<rparr>"

definition triMesh :: TriangleMesh where
  "triMesh = mesh0\<lparr>vertices := [Vec3 (Fin 0) (Fin (- 5)) (Fin 0), Vec3 (Fin 1) (Fin (- 5)) (Fin 0),
                                  Vec3 (Fin 0) (Fin (- 4)) (Fin 0)],
                    triangles := [Vec3 0 1 2],
                    boundingBoxMin := Vec3 (Fin 0) (Fin (- 5)) (Fin 0),
                    boundingBoxMax := Vec3 (Fin 1) (Fin (- 4)) (Fin 0),
                    VAO := 1\<rparr>"

definition frame0 :: frame where
  "frame0 = \<lparr>lookAt = (\<lambda>m eye center up. m), elapsed = 0, rotY = (\<lambda>angle p. p)\<rparr>"

definition view0 :: OpenGLView where
  "view0 = \<lparr>objectPositions = [], mesh_drawn = 0, mesh_culled = 0,
     cameraPos = Vec3 (Fin 0) (Fin 0) (Fin (- 3)), cameraDir = Vec3 (Fin 0) (Fin 0) (Fin (- 1)),
     trianglesLastRun = 0, meshes = [], sphereMesh = mesh0, bumpSphereMesh = triMesh,
     csVAO = 0, gridSize = 0, lightMotionSpeed = Fin 10, frameCounter = 0, lightMoves = False,
     currentProgramID = 1, bumpProgramID = 2, state = state0\<rparr>"

definition triFile :: "string \<Rightarrow> off_file" where
  "triFile tag = \<lparr>header = tag,
     rest = [IntLit 3, IntLit 1, IntLit 0,
             IntLit 0, IntLit 0, IntLit 0,  IntLit 1, IntLit 0, IntLit 0,  IntLit 0, IntLit 1, IntLit 0,
             IntLit 3, IntLit 0, IntLit 1, IntLit 2]\<rparr>"

definition triangleLoaded :: TriangleMesh where
  "triangleLoaded = mesh0\<lparr>
     vertices := [Vec3 (Fin 0) (Fin 0) (Fin 0), Vec3 (Fin 1) (Fin 0) (Fin 0),
                  Vec3 (Fin 0) (Fin 1) (Fin 0)],
     triangles := [Vec3 0 1 2],
     normals := [Vec3 (Fin 0) (Fin 0) (Fin 1), Vec3 (Fin 0) (Fin 0) (Fin 1),
                 Vec3 (Fin 0) (Fin 0) (Fin 1)],
     texCoords := map (sphereMapping (Vec3 (Fin (1 / 2)) (Fin (1 / 2)) (Fin 0)))
                    [Vec3 (Fin 0) (Fin 0) (Fin 0), Vec3 (Fin 1) (Fin 0) (Fin 0),
                     Vec3 (Fin 0) (Fin 1) (Fin 0)],
     boundingBoxMin := Vec3 (Fin 0) (Fin 0) (Fin 0),
     boundingBoxMax := Vec3 (Fin 1) (Fin 1) (Fin 0),
     boundingBoxMid := Vec3 (Fin (1 / 2)) (Fin (1 / 2)) (Fin 0),
     boundingBoxSize := Vec3 (Fin 1) (Fin 1) (Fin 0)\<rparr>"





definition noffFile :: off_file where
  "noffFile = \<lparr>header = ''NOFF'',
     rest = [IntLit 1, IntLit 1, IntLit 0,
             IntLit 0, IntLit 0, IntLit 0,  IntLit 0, IntLit 0, IntLit 1,
             IntLit 3, IntLit 0, IntLit 0, IntLit 0]\<rparr>"

definition triangleMesh :: TriangleMesh where
  "triangleMesh = mesh0\<lparr>vertices := [Vec3 (Fin 0) (Fin 0) (Fin 0), Vec3 (Fin 1) (Fin 0) (Fin 0),
                                       Vec3 (Fin 0) (Fin 1) (Fin 0)],
                          triangles := [Vec3 0 1 2]\<rparr>"



section \<open>Rounding\<close>

lemma rne_of_int [simp]: "rne (of_int n) = n"
  by (simp add: rne_def)




lemma floor_log2_bounds:
  assumes "x \<noteq> 0"
  shows "2 powi \<lfloor>log 2 \<bar>x\<bar>\<rfloor> \<le> \<bar>x\<bar>" "\<bar>x\<bar> < 2 powi (\<lfloor>log 2 \<bar>x\<bar>\<rfloor> + 1)"
proof -
  from assms have p: "0 < \<bar>x\<bar>" by simp
  from floor_log_eq_powr_iff [OF p, of 2 "\<lfloor>log 2 \<bar>x\<bar>\<rfloor>"]
  have "2 powr real_of_int \<lfloor>log 2 \<bar>x\<bar>\<rfloor> \<le> \<bar>x\<bar> \<and> \<bar>x\<bar> < 2 powr real_of_int (\<lfloor>log 2 \<bar>x\<bar>\<rfloor> + 1)"
    by simp
  moreover have "(2::real) powr real_of_int k = 2 powi k" for k
    by (rule powr_real_of_int') simp_all
  ultimately show "2 powi \<lfloor>log 2 \<bar>x\<bar>\<rfloor> \<le> \<bar>x\<bar>" "\<bar>x\<bar> < 2 powi (\<lfloor>log 2 \<bar>x\<bar>\<rfloor> + 1)"
    by (simp_all only:)
qed



lemma rnd_exact:
  assumes "x = of_int n * 2 powi k" "\<bar>n\<bar> < 2 ^ p" "\<bar>x\<bar> \<le> mx"
  shows "rnd p mx x = Fin x"
proof (cases "x = 0")
  case True
  then show ?thesis by (simp add: rnd_def)
next
  case False
  define e where "e = \<lfloor>log 2 \<bar>x\<bar>\<rfloor>"
  define j where "j = k - (e - int p + 1)"
  have "2 powi e \<le> \<bar>x\<bar>"
    unfolding e_def using False by (rule floor_log2_bounds)
  also have "\<bar>x\<bar> = real_of_int \<bar>n\<bar> * 2 powi k"
    by (simp add: assms(1) abs_mult)
  also have "\<dots> < 2 ^ p * 2 powi k"
  proof -
    have "real_of_int \<bar>n\<bar> < real_of_int (2 ^ p)"
      using assms(2) by (simp only: of_int_less_iff)
    then show ?thesis by simp
  qed
  also have "\<dots> = 2 powi (int p + k)"
    by (simp add: power_int_add)
  finally have "2 powi e < (2::real) powi (int p + k)" .
  then have "e < int p + k"
    by (metis linorder_not_le power_int_increasing one_le_numeral)
  then have j: "0 \<le> j"
    by (simp add: j_def)
  have "x / 2 powi (e - int p + 1) = of_int n * 2 powi j"
    by (simp add: assms(1) j_def power_int_diff)
  also have "\<dots> = of_int (n * 2 ^ nat j)"
    using j by (simp add: power_int_def)
  finally have "rne (x / 2 powi (e - int p + 1)) = n * 2 ^ nat j"
    by (simp only: rne_of_int)
  moreover have "real_of_int (n * 2 ^ nat j) * 2 powi (e - int p + 1) = x"
  proof -
    have "real_of_int (n * 2 ^ nat j) = of_int n * 2 powi j"
      using j by (simp add: power_int_def)
    then show ?thesis
      by (simp add: assms(1) j_def power_int_diff)
  qed
  ultimately show ?thesis
    using False assms(3) by (simp add: rnd_def Let_def e_def)
qed



lemma rne_numeral [simp]:
  "rne (numeral k) = numeral k" "rne (- numeral k) = - numeral k" "rne 0 = 0" "rne 1 = 1"
  "rne (- 1) = - 1"
  using rne_of_int [of "numeral k"] rne_of_int [of "- numeral k"] rne_of_int [of 0]
    rne_of_int [of 1] rne_of_int [of "- 1"]
  by simp_all

lemma rnd_0 [simp]: "rnd p mx 0 = Fin 0" "rnd32 0 = Fin 0" "rnd64 0 = Fin 0"
  by (simp_all add: rnd_def rnd32_def rnd64_def)

lemma rnd_not [simp]: "rnd p mx x \<noteq> NaN" "rnd p mx x \<noteq> NZero" "rnd32 x \<noteq> NaN" "rnd32 x \<noteq> NZero"
  by (simp_all add: rnd_def rnd32_def Let_def)



lemma rnd32_exact:
  "x = of_int n * 2 powi k \<Longrightarrow> \<bar>n\<bar> < 2 ^ 24 \<Longrightarrow> \<bar>x\<bar> \<le> 2 ^ 128 - 2 ^ 104 \<Longrightarrow> rnd32 x = Fin x"
  unfolding rnd32_def by (rule rnd_exact)

lemma rnd32_dyadic: "x * 256 \<in> \<int> \<Longrightarrow> \<bar>x\<bar> < 65536 \<Longrightarrow> rnd32 x = Fin x"
proof -
  assume a: "x * 256 \<in> \<int>" "\<bar>x\<bar> < 65536"
  then obtain n where n: "x * 256 = of_int n" by (auto elim: Ints_cases)
  then have x: "x = of_int n * 2 powi (- 8)"
    by (simp add: power_int_minus field_simps)
  from n a(2) have "\<bar>real_of_int n\<bar> < 2 ^ 24" by (simp flip: n add: abs_mult)
  then have "real_of_int \<bar>n\<bar> < real_of_int (2 ^ 24)" by simp
  then have b: "\<bar>n\<bar> < 2 ^ 24" by (simp only: of_int_less_iff)
  have c: "\<bar>x\<bar> \<le> 2 ^ 128 - 2 ^ 104" using a(2) by simp
  from x b c show ?thesis by (rule rnd32_exact)
qed

lemma fadd_Fin [simp]: "fadd (Fin a) (Fin b) = rnd32 (a + b)"
  by (auto simp add: fadd_def add_with_def isInf_def zero_of_sign_def)

lemma fmul_Fin [simp]:
  "fmul (Fin a) (Fin b) = (if a * b = 0 then zero_of_sign ((a < 0) \<noteq> (b < 0)) else rnd32 (a * b))"
  by (simp add: fmul_def mul_with_def isInf_def)

lemma fdiv_Fin [simp]:
  "fdiv (Fin a) (Fin b) =
     (if b = 0 then (if a = 0 then NaN else inf_of_sign (a < 0))
      else if a = 0 then zero_of_sign (b < 0) else rnd32 (a / b))"
  by (simp add: fdiv_def div_with_def isInf_def isZero_def)

lemma fless_Fin [simp]: "fless (Fin a) (Fin b) = (a < b)"
  by (simp add: fless_def)

lemma fle_Fin [simp]: "fle (Fin a) (Fin b) = (a \<le> b)"
  by (simp add: fle_def)

declare zero_of_sign_def [simp] inf_of_sign_def [simp]

lemma fadd_NZero [simp]:
  "fadd (Fin a) NZero = rnd32 a" "fadd NZero (Fin a) = rnd32 a" "fadd NZero NZero = NZero"
  by (auto simp add: fadd_def add_with_def isInf_def)

lemma fsub_Fin [simp]:
  "fsub (Fin a) (Fin b) = rnd32 (a - b)" "fsub (Fin a) NZero = rnd32 a"
  "fsub NZero (Fin b) = (if b = 0 then NZero else rnd32 (- b))" "fsub NZero NZero = Fin 0"
  by (simp_all add: fsub_def)

lemma fmul_NZero [simp]:
  "fmul (Fin a) NZero = (if a < 0 then Fin 0 else NZero)"
  "fmul NZero (Fin a) = (if a < 0 then Fin 0 else NZero)" "fmul NZero NZero = Fin 0"
  by (auto simp add: fmul_def mul_with_def isInf_def)

lemma fdiv_NZero [simp]:
  "fdiv NZero (Fin b) = (if b = 0 then NaN else if b < 0 then Fin 0 else NZero)"
  "fdiv (Fin a) NZero = (if a = 0 then NaN else if a < 0 then PInf else NInf)"
  "fdiv NZero NZero = NaN"
  by (auto simp add: fdiv_def div_with_def isInf_def isZero_def)

lemma fle_NZero [simp]:
  "fle (Fin a) NZero = (a \<le> 0)" "fle NZero (Fin a) = (0 \<le> a)" "fle NZero NZero"
  by (simp_all add: fle_def)

lemma fless_NZero [simp]:
  "fless (Fin a) NZero = (a < 0)" "fless NZero (Fin a) = (0 < a)" "\<not> fless NZero NZero"
  by (simp_all add: fless_def)

lemma rnd32_numeral [simp]:
  "numeral k < (65536::real) \<Longrightarrow> rnd32 (numeral k) = Fin (numeral k)"
  "numeral k < (65536::real) \<Longrightarrow> rnd32 (- numeral k) = Fin (- numeral k)"
  "rnd32 1 = Fin 1" "rnd32 (- 1) = Fin (- 1)"
  by (simp_all add: rnd32_dyadic)

lemma rnd32_fraction [simp]:
  "numeral a / numeral b * 256 \<in> (\<int>::real set) \<Longrightarrow> numeral a / numeral b < (65536::real) \<Longrightarrow>
     rnd32 (numeral a / numeral b) = Fin (numeral a / numeral b)"
  "numeral a / numeral b * 256 \<in> (\<int>::real set) \<Longrightarrow> numeral a / numeral b < (65536::real) \<Longrightarrow>
     rnd32 (- (numeral a / numeral b)) = Fin (- (numeral a / numeral b))"
  "1 / numeral b * 256 \<in> (\<int>::real set) \<Longrightarrow> rnd32 (1 / numeral b) = Fin (1 / numeral b)"
  "1 / numeral b * 256 \<in> (\<int>::real set) \<Longrightarrow>
     rnd32 (- (1 / numeral b)) = Fin (- (1 / numeral b))"
proof -
  have b: "1 / numeral b < (65536::real)"
    by (rule le_less_trans [of _ 1]) simp_all
  show "numeral a / numeral b * 256 \<in> (\<int>::real set) \<Longrightarrow> numeral a / numeral b < (65536::real) \<Longrightarrow>
     rnd32 (numeral a / numeral b) = Fin (numeral a / numeral b)"
    by (rule rnd32_dyadic) simp_all
  show "numeral a / numeral b * 256 \<in> (\<int>::real set) \<Longrightarrow> numeral a / numeral b < (65536::real) \<Longrightarrow>
     rnd32 (- (numeral a / numeral b)) = Fin (- (numeral a / numeral b))"
    by (rule rnd32_dyadic) simp_all
  show "1 / numeral b * 256 \<in> (\<int>::real set) \<Longrightarrow> rnd32 (1 / numeral b) = Fin (1 / numeral b)"
    using b by (intro rnd32_dyadic) simp_all
  show "1 / numeral b * 256 \<in> (\<int>::real set) \<Longrightarrow>
     rnd32 (- (1 / numeral b)) = Fin (- (1 / numeral b))"
    using b by (intro rnd32_dyadic) simp_all
qed

section \<open>Evaluation\<close>

text \<open>Congruence rules that make the simplifier evaluate the bound value first.\<close>

lemma andThen_simps [simp]: "andThen (Inl e) k = Inl e" "andThen (Inr x) k = k x"
  by (simp_all add: andThen_def)


lemma andThen_weak_cong: "r = r' \<Longrightarrow> andThen r k = andThen r' k"
  by simp

lemmas eval_cong = let_weak_cong prod.case_cong_weak sum.case_cong_weak list.case_cong_weak
  option.case_cong_weak andThen_weak_cong

lemmas eval_load = loadOFF_def loadBody_def clear_def cleanupVBO_def cleanupVBO_f_def delVAO_def
  delVBO_def headerIsOFF_def headerIsNOFF_def charAt_def extractInt_def extractUInt_def
  extractFloat_def storeInt_def storeUInt_def storeFloat_def resize_def vzero_def growMin_def
  growMax_def std_min_def std_max_def FLT_MAX_def setMidSize_def calculateNormalsByArea_def
  triangleNormal_def calculateTexCoordsSphereMapping_def Let_def upt_conv_Cons andThen_def

section \<open>Releasing GPU resources twice\<close>

lemma cleanupVBO_f_handles: "set (handles (fst (cleanupVBO_f m w))) = {0}"
  by (simp add: cleanupVBO_f_def handles_def Let_def)

lemma cleanupVBO_f_zero:
  "set (handles m) \<subseteq> {0} \<Longrightarrow> cleanupVBO_f m w = (m, w)"
  by (simp add: cleanupVBO_f_def handles_def Let_def delVAO_def delVBO_def)

text \<open>
  C8. After \<^verbatim>\<open>cleanupVBO(f)\<close> every resource handle of the mesh is zero. A second call
  right after the first changes neither the mesh nor the world: it issues no OpenGL call
  at all, so no handle is deleted twice. On a mesh whose handles are all zero the call
  does nothing. The overload without argument is idempotent as well.
\<close>

theorem cleanupVBO_idempotent:
  "list_all (\<lambda>h. h = 0) (handles (fst (cleanupVBO_f m w))) \<and>
   cleanupVBO_f (fst (cleanupVBO_f m w)) (snd (cleanupVBO_f m w)) = cleanupVBO_f m w \<and>
   filter isDelete (glLog (snd (cleanupVBO_f (fst (cleanupVBO_f m w)) (snd (cleanupVBO_f m w)))))
     = filter isDelete (glLog (snd (cleanupVBO_f m w))) \<and>
   (set (handles m) \<subseteq> {0} \<longrightarrow> cleanupVBO_f m w = (m, w)) \<and>
   cleanupVBO (fst (cleanupVBO m w)) (snd (cleanupVBO m w)) = cleanupVBO m w"
proof -
  have h: "set (handles (fst (cleanupVBO_f m w))) = {0}"
    by (rule cleanupVBO_f_handles)
  have z: "set (handles (fst (cleanupVBO_f m w))) \<subseteq> {0}"
    unfolding h by simp
  have i: "cleanupVBO_f (fst (cleanupVBO_f m w)) (snd (cleanupVBO_f m w)) = cleanupVBO_f m w"
    using cleanupVBO_f_zero [OF z, of "snd (cleanupVBO_f m w)"] by simp
  have g: "glf (fst (cleanupVBO_f m w)) = glf m"
    by (simp add: cleanupVBO_f_def Let_def)
  have c: "cleanupVBO (fst (cleanupVBO m w)) (snd (cleanupVBO m w)) = cleanupVBO m w"
    using i g by (simp add: cleanupVBO_def)
  show ?thesis
    using h i c cleanupVBO_f_zero [of m w] by (simp add: list_all_iff)
qed

theorem cleanupVBO_idempotent_witness:
  "set (handles (mesh0\<lparr>VAO := 1, VBOv := 2, VBOt := 7\<rparr>)) = {0, 1, 2, 7} \<and>
   glLog (snd (cleanupVBO_f (mesh0\<lparr>VAO := 1, VBOv := 2, VBOt := 7\<rparr>) world0))
     = [glDeleteVertexArrays 1, glDeleteBuffers 2, glDeleteBuffers 7] \<and>
   list_all (\<lambda>h. h = 0)
     (handles (fst (cleanupVBO_f (mesh0\<lparr>VAO := 1, VBOv := 2, VBOt := 7\<rparr>) world0))) \<and>
   glLog (snd (cleanupVBO_f
      (fst (cleanupVBO_f (mesh0\<lparr>VAO := 1, VBOv := 2, VBOt := 7\<rparr>) world0))
      (snd (cleanupVBO_f (mesh0\<lparr>VAO := 1, VBOv := 2, VBOt := 7\<rparr>) world0))))
     = [glDeleteVertexArrays 1, glDeleteBuffers 2, glDeleteBuffers 7] \<and>
   cleanupVBO_f mesh0 world0 = (mesh0, world0)"
  using cleanupVBO_idempotent [of "mesh0\<lparr>VAO := 1, VBOv := 2, VBOt := 7\<rparr>" world0]
    cleanupVBO_idempotent [of mesh0 world0]
  by (auto simp add: mesh0_def world0_def handles_def cleanupVBO_f_def delVAO_def delVBO_def
      gl_def Let_def)

section \<open>The fallback of the coloring mode\<close>

lemma drawVBO_static:
  "coloringType m = STATIC_COLOR \<Longrightarrow> glLog (drawVBO m st w) = glLog w @
      [glBindVertexArray (VAO m),
       glUniformMatrix4fv (getModelViewUniform st) (mvCurrent st),
       glUniformMatrix3fv (getNormalMatrixUniform st) (calculateNormalMatrix st),
       glUniform1ui (getUseTextureUniform st) False,
       glDisableVertexAttribArray COLOR_LOCATION,
       glVertexAttrib3fv (Location 2) (staticColor m),
       glDrawElementsTriangles (3 * length (triangles m))]"
  by (simp add: drawVBO_def caseStaticColor_def gl_def Let_def)

text \<open>
  C5. When the coloring mode is TEXTURE and the texture handle is zero, \<^verbatim>\<open>drawVBO\<close> does
  what it does in mode COLOR_ARRAY. When the mode is COLOR_ARRAY, or has fallen back to
  it, and the handle of the color buffer is zero, it does what it does in mode
  STATIC_COLOR, and there the color attribute is switched off and set to the static color
  of the mesh.
\<close>

theorem drawVBO_fallback:
  "(coloringType m = TEXTURE \<and> textureID m = 0 \<longrightarrow>
      drawVBO m st w = drawVBO (m\<lparr>coloringType := COLOR_ARRAY\<rparr>) st w) \<and>
   ((coloringType m = COLOR_ARRAY \<or> coloringType m = TEXTURE \<and> textureID m = 0) \<and> VBOc m = 0 \<longrightarrow>
      drawVBO m st w = drawVBO (m\<lparr>coloringType := STATIC_COLOR\<rparr>) st w) \<and>
   glLog (drawVBO (m\<lparr>coloringType := STATIC_COLOR\<rparr>) st w) = glLog w @
      [glBindVertexArray (VAO m),
       glUniformMatrix4fv (getModelViewUniform st) (mvCurrent st),
       glUniformMatrix3fv (getNormalMatrixUniform st) (calculateNormalMatrix st),
       glUniform1ui (getUseTextureUniform st) False,
       glDisableVertexAttribArray COLOR_LOCATION,
       glVertexAttrib3fv (Location 2) (staticColor m),
       glDrawElementsTriangles (3 * length (triangles m))]"
  using drawVBO_static [of "m\<lparr>coloringType := STATIC_COLOR\<rparr>" st w]
  by (auto simp add: drawVBO_def caseTexture_def caseColorArray_def caseStaticColor_def Let_def)

theorem drawVBO_fallback_witness:
  "glLog (drawVBO (mesh0\<lparr>coloringType := TEXTURE, staticColor := Vec3 (Fin 0) (Fin 1) (Fin 0)\<rparr>)
      state0 world0) =
      [glBindVertexArray 0,
       glUniformMatrix4fv (Uniform 1 ''modelView'') mat_identity,
       glUniformMatrix3fv (Uniform 1 ''normalMatrix'') (NormalMatrixOf mat_identity),
       glUniform1ui (Uniform 1 ''useTexture'') False,
       glDisableVertexAttribArray COLOR_LOCATION,
       glVertexAttrib3fv (Location 2) (Vec3 (Fin 0) (Fin 1) (Fin 0)),
       glDrawElementsTriangles 0] \<and>
   drawVBO (mesh0\<lparr>coloringType := TEXTURE, VBOc := 4\<rparr>) state0 world0 =
     drawVBO (mesh0\<lparr>coloringType := COLOR_ARRAY, VBOc := 4\<rparr>) state0 world0"
proof -
  let ?A = "mesh0\<lparr>coloringType := TEXTURE, staticColor := Vec3 (Fin 0) (Fin 1) (Fin 0)\<rparr>"
  let ?B = "mesh0\<lparr>coloringType := TEXTURE, VBOc := 4\<rparr>"
  have a: "coloringType ?A = TEXTURE \<and> textureID ?A = 0 \<and> VBOc ?A = 0"
    by (simp add: mesh0_def)
  have b: "coloringType ?B = TEXTURE \<and> textureID ?B = 0"
    by (simp add: mesh0_def)
  have "drawVBO ?A state0 world0 = drawVBO (?A\<lparr>coloringType := STATIC_COLOR\<rparr>) state0 world0"
    using a drawVBO_fallback [of ?A state0 world0] by blast
  moreover have "glLog (drawVBO (?A\<lparr>coloringType := STATIC_COLOR\<rparr>) state0 world0) =
      [glBindVertexArray 0,
       glUniformMatrix4fv (Uniform 1 ''modelView'') mat_identity,
       glUniformMatrix3fv (Uniform 1 ''normalMatrix'') (NormalMatrixOf mat_identity),
       glUniform1ui (Uniform 1 ''useTexture'') False,
       glDisableVertexAttribArray COLOR_LOCATION,
       glVertexAttrib3fv (Location 2) (Vec3 (Fin 0) (Fin 1) (Fin 0)),
       glDrawElementsTriangles 0]"
    using drawVBO_fallback [of ?A state0 world0]
    by (simp add: mesh0_def state0_def world0_def getModelViewUniform_def
        getNormalMatrixUniform_def getUseTextureUniform_def calculateNormalMatrix_def)
  moreover have "drawVBO ?B state0 world0 = drawVBO (?B\<lparr>coloringType := COLOR_ARRAY\<rparr>) state0 world0"
    using b drawVBO_fallback [of ?B state0 world0] by blast
  ultimately show ?thesis by (simp add: mesh0_def)
qed

section \<open>View-frustum culling\<close>

lemma fadd_NaN [simp]: "fadd NaN y = NaN" "fadd x NaN = NaN"
  by (simp_all add: fadd_def add_with_def)

lemma fmul_NaN [simp]: "fmul NaN y = NaN" "fmul x NaN = NaN"
  by (simp_all add: fmul_def mul_with_def)

lemma fle_NaN [simp]: "fle NaN y = False" "fle x NaN = False"
  by (simp_all add: fle_def)

lemma fless_NaN [simp]: "fless NaN y = False" "fless x NaN = False"
  by (simp_all add: fless_def)





lemma allOutside_iff: "allOutside plane cs \<longleftrightarrow> (\<forall>c \<in> set cs. \<not> cornerInside plane c)"
  by (induction cs) simp_all

lemma testPlanes_iff:
  "testPlanes ps cs \<longleftrightarrow> (\<forall>p \<in> set ps. \<exists>c \<in> set cs. cornerInside p c)"
  by (induction ps) (auto simp add: allOutside_iff)



lemma corners_ex:
  "(\<exists>c \<in> set (boxCorners mn mx). P c) \<longleftrightarrow>
   (\<exists>x \<in> {vx mn, vx mx}. \<exists>y \<in> {vy mn, vy mx}. \<exists>z \<in> {vz mn, vz mx}. P (Vec3 x y z))"
  unfolding boxCorners_def by (simp only: list.set bex_simps insert_iff empty_iff bex_Un) blast

lemma visible_planes:
  "boundingBoxIsVisible mesh st \<longleftrightarrow>
     (\<forall>plane \<in> set (map Plane_normalize (extractPlanes (mat_data (clipMatrix st)))).
        \<exists>corner \<in> set (boxCorners (boundingBoxMin mesh) (boundingBoxMax mesh)).
          fge (planeValue plane corner) (Fin 0))"
  unfolding boundingBoxIsVisible_def Let_def testPlanes_iff cornerInside_def ..

lemma planes_state0:
  "map Plane_normalize (extractPlanes (mat_data (clipMatrix state0))) =
     [Plane (Fin (- 1)) (Fin 0) (Fin 0) (Fin 1), Plane (Fin 1) (Fin 0) (Fin 0) (Fin 1),
      Plane (Fin 0) (Fin 1) (Fin 0) (Fin 1), Plane (Fin 0) (Fin (- 1)) (Fin 0) (Fin 1),
      Plane (Fin 0) (Fin 0) (Fin 1) (Fin 1), Plane (Fin 0) (Fin 0) (Fin (- 1)) (Fin 1)]"
  by (simp add: extractPlanes_def mat_data_def clipMatrix_def state0_def mat_mul_def
      mat_identity_def fsub_def Let_def)

lemma planes_zeroState:
  "extractPlanes (mat_data (clipMatrix zeroState)) =
     [Plane (Fin 0) (Fin 0) (Fin 0) (Fin 0), Plane (Fin 0) (Fin 0) (Fin 0) (Fin 0),
      Plane (Fin 0) (Fin 0) (Fin 0) (Fin 0), Plane (Fin 0) (Fin 0) (Fin 0) (Fin 0),
      Plane (Fin 0) (Fin 0) (Fin 0) (Fin 0), Plane (Fin 0) (Fin 0) (Fin 0) (Fin 0)]"
  by (simp add: extractPlanes_def mat_data_def clipMatrix_def state0_def zeroState_def mat_mul_def
      mat_identity_def fsub_def Let_def)

text \<open>
  C1 as stated fails in its last clause. With a projection matrix of zeros the box around
  the origin is reported not visible, yet no plane has a corner strictly on its negative
  side: the values are NaN, and NaN is not below zero.
\<close>

theorem strictly_negative_counterexample:
  "\<not> boundingBoxIsVisible (boxMesh 0) zeroState \<and>
   \<not> list_ex (\<lambda>plane. allStrictlyNegative plane
                  (boxCorners (boundingBoxMin (boxMesh 0)) (boundingBoxMax (boxMesh 0))))
        (map Plane_normalize (extractPlanes (mat_data (clipMatrix zeroState))))"
  by (simp add: planes_zeroState inf_of_sign_def visible_planes boxCorners_def boxMesh_def
      mesh0_def fge_def allStrictlyNegative_def)

text \<open>
  C1, amended. The six planes are taken from the clip matrix (projection times
  model-view, as the flat array \<open>m\<close>) by the formulas below and each is divided by the
  length of its normal. The box is reported visible if and only if for each of the six
  planes one of the eight corners, every combination of the components of the minimum
  and the maximum of the bounding box, gives \<open>a * x + b * y + c * z + d \<ge> 0\<close>. It is
  reported not visible exactly when for some plane every corner fails that test: its
  value is below zero, or it is no number and no comparison holds.
\<close>

theorem boundingBoxIsVisible_iff:
  "(boundingBoxIsVisible mesh st \<longleftrightarrow>
     (let m = mat_data (mat_mul (projection st) (mvCurrent st));
          mn = boundingBoxMin mesh; mx = boundingBoxMax mesh
      in \<forall>plane \<in> set (map Plane_normalize
            [Plane (fsub (m 3) (m 0)) (fsub (m 7) (m 4)) (fsub (m 11) (m 8)) (fsub (m 15) (m 12)),
             Plane (fadd (m 3) (m 0)) (fadd (m 7) (m 4)) (fadd (m 11) (m 8)) (fadd (m 15) (m 12)),
             Plane (fadd (m 3) (m 1)) (fadd (m 7) (m 5)) (fadd (m 11) (m 9)) (fadd (m 15) (m 13)),
             Plane (fsub (m 3) (m 1)) (fsub (m 7) (m 5)) (fsub (m 11) (m 9)) (fsub (m 15) (m 13)),
             Plane (fadd (m 3) (m 2)) (fadd (m 7) (m 6)) (fadd (m 11) (m 10)) (fadd (m 15) (m 14)),
             Plane (fsub (m 3) (m 2)) (fsub (m 7) (m 6)) (fsub (m 11) (m 10)) (fsub (m 15) (m 14))]).
           \<exists>x \<in> {vx mn, vx mx}. \<exists>y \<in> {vy mn, vy mx}. \<exists>z \<in> {vz mn, vz mx}.
             fge (planeValue plane (Vec3 x y z)) (Fin 0))) \<and>
   (\<not> boundingBoxIsVisible mesh st \<longleftrightarrow>
     (\<exists>plane \<in> set (map Plane_normalize (extractPlanes (mat_data (clipMatrix st)))).
        \<forall>corner \<in> set (boxCorners (boundingBoxMin mesh) (boundingBoxMax mesh)).
          fless (planeValue plane corner) (Fin 0) \<or> planeValue plane corner = NaN)) \<and>
   Plane_normalize (Plane a b c d) =
     Plane (fdiv a (fsqrt (fadd (fadd (fmul a a) (fmul b b)) (fmul c c))))
           (fdiv b (fsqrt (fadd (fadd (fmul a a) (fmul b b)) (fmul c c))))
           (fdiv c (fsqrt (fadd (fadd (fmul a a) (fmul b b)) (fmul c c))))
           (fdiv d (fsqrt (fadd (fadd (fmul a a) (fmul b b)) (fmul c c))))"
proof (intro conjI)
  show "boundingBoxIsVisible mesh st \<longleftrightarrow>
     (let m = mat_data (mat_mul (projection st) (mvCurrent st));
          mn = boundingBoxMin mesh; mx = boundingBoxMax mesh
      in \<forall>plane \<in> set (map Plane_normalize
            [Plane (fsub (m 3) (m 0)) (fsub (m 7) (m 4)) (fsub (m 11) (m 8)) (fsub (m 15) (m 12)),
             Plane (fadd (m 3) (m 0)) (fadd (m 7) (m 4)) (fadd (m 11) (m 8)) (fadd (m 15) (m 12)),
             Plane (fadd (m 3) (m 1)) (fadd (m 7) (m 5)) (fadd (m 11) (m 9)) (fadd (m 15) (m 13)),
             Plane (fsub (m 3) (m 1)) (fsub (m 7) (m 5)) (fsub (m 11) (m 9)) (fsub (m 15) (m 13)),
             Plane (fadd (m 3) (m 2)) (fadd (m 7) (m 6)) (fadd (m 11) (m 10)) (fadd (m 15) (m 14)),
             Plane (fsub (m 3) (m 2)) (fsub (m 7) (m 6)) (fsub (m 11) (m 10)) (fsub (m 15) (m 14))]).
           \<exists>x \<in> {vx mn, vx mx}. \<exists>y \<in> {vy mn, vy mx}. \<exists>z \<in> {vz mn, vz mx}.
             fge (planeValue plane (Vec3 x y z)) (Fin 0))"
    unfolding visible_planes corners_ex Let_def clipMatrix_def extractPlanes_def ..
next
  have "\<not> fge x (Fin 0) \<longleftrightarrow> fless x (Fin 0) \<or> x = NaN" for x
    by (cases x) (auto simp add: fge_def fle_def fless_def)
  then show "\<not> boundingBoxIsVisible mesh st \<longleftrightarrow>
     (\<exists>plane \<in> set (map Plane_normalize (extractPlanes (mat_data (clipMatrix st)))).
        \<forall>corner \<in> set (boxCorners (boundingBoxMin mesh) (boundingBoxMax mesh)).
          fless (planeValue plane corner) (Fin 0) \<or> planeValue plane corner = NaN)"
    unfolding visible_planes by (simp only: not_all not_ex bex_simps ball_simps)
next
  show "Plane_normalize (Plane a b c d) =
     Plane (fdiv a (fsqrt (fadd (fadd (fmul a a) (fmul b b)) (fmul c c))))
           (fdiv b (fsqrt (fadd (fadd (fmul a a) (fmul b b)) (fmul c c))))
           (fdiv c (fsqrt (fadd (fadd (fmul a a) (fmul b b)) (fmul c c))))
           (fdiv d (fsqrt (fadd (fadd (fmul a a) (fmul b b)) (fmul c c))))"
    by (simp add: Let_def)
qed

theorem boundingBoxIsVisible_iff_witness:
  "boundingBoxIsVisible (boxMesh 0) state0 \<and> \<not> boundingBoxIsVisible (boxMesh 1000) state0"
proof -
  have "boundingBoxIsVisible (boxMesh 0) state0"
    using boundingBoxIsVisible_iff [of "boxMesh 0" state0, THEN conjunct2, THEN conjunct1]
    by (simp add: planes_state0 boxCorners_def boxMesh_def mesh0_def)
  moreover have "\<not> boundingBoxIsVisible (boxMesh 1000) state0"
    using boundingBoxIsVisible_iff [of "boxMesh 1000" state0, THEN conjunct2, THEN conjunct1]
    by (simp add: planes_state0 boxCorners_def boxMesh_def mesh0_def)
  ultimately show ?thesis by simp
qed




section \<open>The notification of the paint loop\<close>

lemma paintGL_frame:
  assumes "drawScene fr v w = Inr s"
  shows "\<exists>v' w'. paintGL fr v w = Inr (expected (trianglesLastRun v) (trianglesDrawn s), v', w') \<and>
           trianglesLastRun v' = trianglesDrawn s"
  using assms by (simp add: paintGL_def andThen_def notify_def expected_def Let_def)

lemma paintGL_error: "drawScene fr v w = Inl e \<Longrightarrow> paintGL fr v w = Inl e"
  by (simp add: paintGL_def andThen_def)

lemma paintFrames_signals:
  "paintFrames frs v w = Inr res \<Longrightarrow>
     map snd res = map2 expected (trianglesLastRun v # map fst res) (map fst res)"
proof (induction frs arbitrary: v w res)
  case Nil
  then show ?case by simp
next
  case (Cons fr frs)
  from Cons.prems obtain s where s: "drawScene fr v w = Inr s"
    by (auto simp add: andThen_def split: sum.splits)
  from paintGL_frame [OF s] obtain v' w' where
    p: "paintGL fr v w = Inr (expected (trianglesLastRun v) (trianglesDrawn s), v', w')"
    and l: "trianglesLastRun v' = trianglesDrawn s" by blast
  from Cons.prems s p obtain res' where r: "paintFrames frs v' w' = Inr res'"
    and res: "res = (trianglesDrawn s, expected (trianglesLastRun v) (trianglesDrawn s)) # res'"
    by (auto simp add: andThen_def split: sum.splits)
  from Cons.IH [OF r] l res show ?case by simp
qed

lemma draw_no_VAO: "VAO m = 0 \<Longrightarrow> draw m st w = (0, w)"
  by (simp add: draw_def)

lemma forLoop_done: "\<not> i < bound \<Longrightarrow> forLoop i bound step body s = Inr s"
  by (simp add: forLoop.simps)

lemma visible_tri:
  "mvCurrent st = mat_translate mat_identity (Fin 0) (Fin 5) (Fin 0) \<Longrightarrow>
   projection st = mat_identity \<Longrightarrow> boundingBoxIsVisible triMesh st"
  by (simp add: boundingBoxIsVisible_def extractPlanes_def mat_data_def clipMatrix_def mat_mul_def
      mat_identity_def mat_translate_def mat_translation_def fsub_def Let_def boxCorners_def
      triMesh_def mesh0_def cornerInside_def fge_def)

lemma draw_tri:
  "mvCurrent st = mat_translate mat_identity (Fin 0) (Fin 5) (Fin 0) \<Longrightarrow>
   projection st = mat_identity \<Longrightarrow> fst (draw triMesh st w) = 1"
  by (simp add: draw_def visible_tri Let_def) (simp add: triMesh_def mesh0_def)

lemma scene0:
  "\<exists>s. drawScene frame0 (view0\<lparr>trianglesLastRun := r\<rparr>) w = Inr s \<and> trianglesDrawn s = 1"
  by (simp add: drawScene_def Let_def andThen_def drawLight_def view0_def frame0_def state0_def
      draw_no_VAO mesh0_def pushModelViewMatrix_def popModelViewMatrix_def
      loadIdentityModelViewMatrix_def switchToStandardProgram_def translate_def
      setCurrentProgram_def split_def draw_tri forLoop_done)

text \<open>
  C9. In a frame that is painted to its end, the signal \<^verbatim>\<open>triangleCountChanged\<close> is
  emitted if and only if the total of the triangles drawn in the frame differs from the
  total recorded in \<^verbatim>\<open>trianglesLastRun\<close>; after the frame the recorded total is the
  total of the frame. So in a run of frames each frame notifies exactly when its total
  differs from the total of the frame before it, the first from the total recorded at
  the start.
\<close>

theorem paintGL_notifies:
  "(drawScene fr v w = Inr s \<longrightarrow>
      (\<exists>v' w'. paintGL fr v w =
          Inr (if trianglesDrawn s \<noteq> trianglesLastRun v
               then [triangleCountChanged (trianglesDrawn s)] else [], v', w') \<and>
        trianglesLastRun v' = trianglesDrawn s)) \<and>
   (paintFrames frs v w = Inr res \<longrightarrow>
      map snd res = map2 (\<lambda>recorded n. if n \<noteq> recorded then [triangleCountChanged n] else [])
                      (trianglesLastRun v # map fst res) (map fst res))"
  using paintGL_frame [of fr v w s] paintFrames_signals [of frs v w res]
  by (auto simp add: expected_def [abs_def])

theorem paintGL_notifies_witness:
  "(\<exists>s v' w'. drawScene frame0 view0 world0 = Inr s \<and> trianglesDrawn s = 1 \<and>
      trianglesLastRun view0 = 0 \<and>
      paintGL frame0 view0 world0 = Inr ([triangleCountChanged 1], v', w') \<and>
      trianglesLastRun v' = 1) \<and>
   (\<exists>s v' w'. drawScene frame0 (view0\<lparr>trianglesLastRun := 1\<rparr>) world0 = Inr s \<and>
      trianglesDrawn s = 1 \<and>
      paintGL frame0 (view0\<lparr>trianglesLastRun := 1\<rparr>) world0 = Inr ([], v', w') \<and>
      trianglesLastRun v' = 1)"
proof -
  obtain s where s: "drawScene frame0 view0 world0 = Inr s" "trianglesDrawn s = 1"
    using scene0 [of 0 world0] by (auto simp add: view0_def)
  obtain t where t: "drawScene frame0 (view0\<lparr>trianglesLastRun := 1\<rparr>) world0 = Inr t"
    "trianglesDrawn t = 1"
    using scene0 [of 1 world0] by auto
  have l: "trianglesLastRun view0 = 0" by (simp add: view0_def)
  from paintGL_notifies [of frame0 view0 world0 s] s l
  have a: "\<exists>v' w'. paintGL frame0 view0 world0 = Inr ([triangleCountChanged 1], v', w') \<and>
      trianglesLastRun v' = 1" by simp
  from paintGL_notifies [of frame0 "view0\<lparr>trianglesLastRun := 1\<rparr>" world0 t] t
  have b: "\<exists>v' w'. paintGL frame0 (view0\<lparr>trianglesLastRun := 1\<rparr>) world0 = Inr ([], v', w') \<and>
      trianglesLastRun v' = 1" by simp
  from s t l a b show ?thesis by blast
qed

section \<open>Loading\<close>

lemma clear_fields:
  "vertices (fst (clear m w)) = []" "triangles (fst (clear m w)) = []"
  "normals (fst (clear m w)) = []" "colors (fst (clear m w)) = []"
  "boundingBoxMin (fst (clear m w)) = Vec3 FLT_MAX FLT_MAX FLT_MAX"
  "boundingBoxMax (fst (clear m w)) = Vec3 (fneg FLT_MAX) (fneg FLT_MAX) (fneg FLT_MAX)"
  "glf (fst (clear m w)) = glf m"
  by (simp_all add: clear_def cleanupVBO_def cleanupVBO_f_def Let_def)

lemma clear_handles:
  "glf m \<or> set (handles m) \<subseteq> {0} \<Longrightarrow> set (handles (fst (clear m w))) \<subseteq> {0}"
  by (auto simp add: clear_def cleanupVBO_def cleanupVBO_f_def Let_def handles_def)

lemma clear_cout: "cout (snd (clear m w)) = cout w"
  by (simp add: clear_def cleanupVBO_def cleanupVBO_f_def Let_def delVAO_def delVBO_def gl_def)

lemma headerIsOFF_iff: "headerIsOFF s \<longleftrightarrow> take 3 s = ''OFF''"
proof (cases s)
  case Nil
  then show ?thesis by (simp add: headerIsOFF_def charAt_def)
next
  case (Cons a s1)
  show ?thesis
  proof (cases s1)
    case Nil
    with Cons show ?thesis by (simp add: headerIsOFF_def charAt_def)
  next
    case (Cons b s2)
    note c2 = this
    show ?thesis
    proof (cases s2)
      case Nil
      with c2 \<open>s = a # s1\<close> show ?thesis by (simp add: headerIsOFF_def charAt_def)
    next
      case (Cons c s3)
      with c2 \<open>s = a # s1\<close> show ?thesis by (simp add: headerIsOFF_def charAt_def)
    qed
  qed
qed

lemma headerIsNOFF_iff: "headerIsNOFF s \<longleftrightarrow> take 4 s = ''NOFF''"
proof -
  have "s = [] \<or> (\<exists>a. s = [a]) \<or> (\<exists>a b. s = [a, b]) \<or> (\<exists>a b c. s = [a, b, c]) \<or>
        (\<exists>a b c d r. s = a # b # c # d # r)"
    by (metis list.exhaust)
  then show ?thesis
    by (auto simp add: headerIsNOFF_def charAt_def)
qed

lemma loadOFF_missing:
  "loadOFF fn None cv m w =
     Inr (fst (clear m w), print [Str ''loadOFF: can not find '', Str fn, Endl] (snd (clear m w)))"
  by (simp add: loadOFF_def split_def Let_def)

lemma loadOFF_bad_tag:
  "\<not> headerIsOFF (header f) \<Longrightarrow> \<not> headerIsNOFF (header f) \<Longrightarrow>
     loadOFF fn (Some f) cv m w = Inr (clear m w)"
  by (simp add: loadOFF_def split_def Let_def)

lemma load_triangle_OFFX:
  "loadOFF ''tri.off'' (Some (triFile ''OFFX'')) False mesh0 world0 = Inr (triangleLoaded, world0)"
  by (simp add: triFile_def mesh0_def world0_def triangleLoaded_def eval_load eval_nat_numeral
      cong: eval_cong)

text \<open>
  C7 as stated fails: the tag is compared by its first characters only. A file whose tag
  is OFFX, which is neither OFF nor NOFF, is read as an OFF file and leaves three vertices
  in the mesh.
\<close>

theorem loadOFF_prefix_counterexample:
  "''OFFX'' \<noteq> ''OFF'' \<and> ''OFFX'' \<noteq> ''NOFF'' \<and>
   loadedVertices (loadOFF ''tri.off'' (Some (triFile ''OFFX'')) False mesh0 world0) =
     Some [Vec3 (Fin 0) (Fin 0) (Fin 0), Vec3 (Fin 1) (Fin 0) (Fin 0), Vec3 (Fin 0) (Fin 1) (Fin 0)]"
  by (simp add: load_triangle_OFFX loadedVertices_def triangleLoaded_def)

text \<open>
  C7, amended. When the file is missing, or its first word begins neither with OFF nor
  with NOFF, \<^verbatim>\<open>loadOFF\<close> returns with a mesh that has no vertices and no triangles. If
  the mesh has its OpenGL functions, or had no GPU resources before, all its handles are
  zero and every \<^verbatim>\<open>draw\<close> of it returns 0 and does nothing. For a missing file the line
  \<^verbatim>\<open>loadOFF: can not find\<close> with the file name is written to the standard output.
\<close>

theorem loadOFF_failure:
  "(file = None \<or> (\<exists>f. file = Some f \<and> take 3 (header f) \<noteq> ''OFF'' \<and> take 4 (header f) \<noteq> ''NOFF''))
   \<longrightarrow>
   (\<exists>m' w'. loadOFF fn file cv m w = Inr (m', w') \<and> vertices m' = [] \<and> triangles m' = [] \<and>
      (glf m \<or> set (handles m) \<subseteq> {0} \<longrightarrow>
         set (handles m') \<subseteq> {0} \<and> (\<forall>st w''. draw m' st w'' = (0, w''))) \<and>
      (file = None \<longrightarrow> cout w' = cout w @ [Str ''loadOFF: can not find '', Str fn, Endl]))"
proof
  assume a: "file = None \<or> (\<exists>f. file = Some f \<and> take 3 (header f) \<noteq> ''OFF'' \<and> take 4 (header f) \<noteq> ''NOFF'')"
  have v: "glf m \<or> set (handles m) \<subseteq> {0} \<Longrightarrow> VAO (fst (clear m w)) = 0"
    using clear_handles [of m w] by (simp add: handles_def)
  from a show "\<exists>m' w'. loadOFF fn file cv m w = Inr (m', w') \<and> vertices m' = [] \<and> triangles m' = [] \<and>
      (glf m \<or> set (handles m) \<subseteq> {0} \<longrightarrow>
         set (handles m') \<subseteq> {0} \<and> (\<forall>st w''. draw m' st w'' = (0, w''))) \<and>
      (file = None \<longrightarrow> cout w' = cout w @ [Str ''loadOFF: can not find '', Str fn, Endl])"
  proof
    assume "file = None"
    then show ?thesis
      using clear_handles [of m w] v
      by (simp add: loadOFF_missing clear_fields draw_no_VAO print_def clear_cout)
  next
    assume "\<exists>f. file = Some f \<and> take 3 (header f) \<noteq> ''OFF'' \<and> take 4 (header f) \<noteq> ''NOFF''"
    then obtain f where f: "file = Some f" "\<not> headerIsOFF (header f)" "\<not> headerIsNOFF (header f)"
      by (auto simp add: headerIsOFF_iff headerIsNOFF_iff)
    have "loadOFF fn file cv m w = Inr (fst (clear m w), snd (clear m w))"
      using f by (simp add: loadOFF_bad_tag)
    moreover have "vertices (fst (clear m w)) = [] \<and> triangles (fst (clear m w)) = [] \<and>
      (glf m \<or> set (handles m) \<subseteq> {0} \<longrightarrow>
         set (handles (fst (clear m w))) \<subseteq> {0} \<and>
         (\<forall>st w''. draw (fst (clear m w)) st w'' = (0, w''))) \<and>
      (file = None \<longrightarrow> cout (snd (clear m w)) = cout w @ [Str ''loadOFF: can not find '', Str fn, Endl])"
      using clear_handles [of m w] v f(1)
      by (simp add: clear_fields draw_no_VAO)
    ultimately show ?thesis by blast
  qed
qed

theorem loadOFF_failure_witness:
  "(\<exists>m' w'. loadOFF ''gone.off'' None True mesh0 world0 = Inr (m', w') \<and> vertices m' = [] \<and>
      triangles m' = [] \<and> set (handles m') \<subseteq> {0} \<and> draw m' state0 w' = (0, w') \<and>
      cout w' = [Str ''loadOFF: can not find '', Str ''gone.off'', Endl]) \<and>
   (\<exists>m' w'. loadOFF ''tri.off'' (Some (triFile ''COFF'')) True mesh0 world0 = Inr (m', w') \<and>
      vertices m' = [] \<and> triangles m' = [] \<and> set (handles m') \<subseteq> {0} \<and>
      draw m' state0 w' = (0, w'))"
proof -
  have g: "glf mesh0" "cout world0 = []"
    by (simp_all add: mesh0_def world0_def)
  have t: "take 3 (header (triFile ''COFF'')) \<noteq> ''OFF''"
    "take 4 (header (triFile ''COFF'')) \<noteq> ''NOFF''"
    by (simp_all add: triFile_def)
  have a: "\<exists>m' w'. loadOFF ''gone.off'' None True mesh0 world0 = Inr (m', w') \<and> vertices m' = [] \<and>
      triangles m' = [] \<and> set (handles m') \<subseteq> {0} \<and> draw m' state0 w' = (0, w') \<and>
      cout w' = [Str ''loadOFF: can not find '', Str ''gone.off'', Endl]"
    using loadOFF_failure [of None "''gone.off''" True mesh0 world0] g by auto
  have b: "\<exists>m' w'. loadOFF ''tri.off'' (Some (triFile ''COFF'')) True mesh0 world0 = Inr (m', w') \<and>
      vertices m' = [] \<and> triangles m' = [] \<and> set (handles m') \<subseteq> {0} \<and>
      draw m' state0 w' = (0, w')"
    using loadOFF_failure [of "Some (triFile ''COFF'')" "''tri.off''" True mesh0 world0] g t
    by auto
  from a b show ?thesis by blast
qed
lemma readVertices_noff_empty:
  "normals m = [] \<Longrightarrow> readVertices True (i # is) inp m = Inl OutOfBounds"
  by (simp add: split_def Let_def)

lemma loadBody_noff:
  assumes "normals m = []" "extractInt None inp = (Some nv, inp1)" "0 < nv"
    "extractInt None inp1 = (Some nf, inp2)" "0 < nf"
  shows "loadBody True inp cv m w = Inl OutOfBounds"
proof -
  have "[0..<nat nv] = 0 # [1..<nat nv]"
    using assms(3) by (simp add: upt_conv_Cons)
  then show ?thesis
    using assms by (simp add: loadBody_def split_def Let_def readVertices_noff_empty)
qed

text \<open>
  C10 fails on the code. \<^verbatim>\<open>loadOFF\<close> resizes the vertices but never the normals, which
  \<^verbatim>\<open>clear\<close> has emptied. For every NOFF file with a positive number of vertices and of
  faces the first write to \<^verbatim>\<open>normals[0]\<close> is outside the empty vector.
\<close>

theorem loadOFF_NOFF_out_of_bounds:
  assumes "take 4 (header f) = ''NOFF''" "rest f = IntLit nv # IntLit nf # ts"
    "0 < nv" "nv < 2 ^ 31" "0 < nf" "nf < 2 ^ 31"
  shows "loadOFF filename (Some f) createVBOs m w = Inl OutOfBounds"
proof -
  have n: "headerIsNOFF (header f)"
    using assms(1) by (simp add: headerIsNOFF_iff)
  have "\<not> headerIsOFF (header f)"
    using n by (auto simp add: headerIsOFF_def headerIsNOFF_def)
  moreover have "header f \<noteq> []"
    using assms(1) by auto
  moreover have "loadBody True \<lparr>tokens = rest f, failbit = False\<rparr> createVBOs (fst (clear m w))
      (snd (clear m w)) = Inl OutOfBounds"
    using assms
    by (intro loadBody_noff [where nv = nv and nf = nf
          and ?inp1.0 = "\<lparr>tokens = IntLit nf # ts, failbit = False\<rparr>"
          and ?inp2.0 = "\<lparr>tokens = ts, failbit = False\<rparr>"])
       (simp_all add: clear_fields extractInt_def storeInt_def)
  ultimately show ?thesis
    using n by (simp add: loadOFF_def split_def Let_def)
qed

theorem loadOFF_NOFF_out_of_bounds_witness:
  "take 4 (header noffFile) = ''NOFF'' \<and>
   take 3 (rest noffFile) = [IntLit 1, IntLit 1, IntLit 0] \<and>
   normals (fst (clear mesh0 world0)) = [] \<and>
   loadOFF ''n.off'' (Some noffFile) False mesh0 world0 = Inl OutOfBounds"
  using loadOFF_NOFF_out_of_bounds [of noffFile 1 1 "drop 2 (rest noffFile)" "''n.off''" False mesh0 world0]
  by (simp add: noffFile_def clear_fields)
section \<open>Normals by area\<close>

lemma contributions_Nil [simp]: "contributions vs [] i = []"
  by (simp add: contributions_def)

lemma contributions_Cons:
  "contributions vs (t # ts) i =
     replicate (count_list [vx t, vy t, vz t] i) (triangleNormal vs t) @ contributions vs ts i"
  by (simp add: contributions_def)

lemma three_updates:
  assumes "a < length ns" "b < length ns" "c < length ns" "i < length ns"
  shows "ns[a := vadd (ns ! a) n, b := vadd (ns[a := vadd (ns ! a) n] ! b) n,
            c := vadd (ns[a := vadd (ns ! a) n, b := vadd (ns[a := vadd (ns ! a) n] ! b) n] ! c) n] ! i
         = foldl vadd (ns ! i) (replicate (count_list [a, b, c] i) n)"
  using assms by (auto simp add: nth_list_update)

lemma sumNormals_nth:
  "sumNormals vs ts ns = Inr ns' \<Longrightarrow>
     length ns' = length ns \<and>
     (\<forall>i < length ns. ns' ! i = foldl vadd (ns ! i) (contributions vs ts i))"
proof (induction ts arbitrary: ns)
  case Nil
  then show ?case by simp
next
  case (Cons t ts)
  let ?n = "triangleNormal vs t"
  let ?ns1 = "ns[vx t := vadd (ns ! vx t) ?n]"
  let ?ns2 = "?ns1[vy t := vadd (?ns1 ! vy t) ?n]"
  let ?ns3 = "?ns2[vz t := vadd (?ns2 ! vz t) ?n]"
  from Cons.prems have b: "vx t < length ns" "vy t < length ns" "vz t < length ns"
    and r: "sumNormals vs ts ?ns3 = Inr ns'"
    by (simp_all add: Let_def split: if_splits)
  from Cons.IH [OF r] have l: "length ns' = length ns"
    and n: "\<And>i. i < length ns \<Longrightarrow> ns' ! i = foldl vadd (?ns3 ! i) (contributions vs ts i)"
    by simp_all
  show ?case
  proof (intro conjI allI impI)
    show "length ns' = length ns" by (rule l)
  next
    fix i assume i: "i < length ns"
    have "?ns3 ! i = foldl vadd (ns ! i) (replicate (count_list [vx t, vy t, vz t] i) ?n)"
      using b i by (rule three_updates)
    with n [OF i] show "ns' ! i = foldl vadd (ns ! i) (contributions vs (t # ts) i)"
      by (simp add: contributions_Cons)
  qed
qed

lemma sumNormals_total:
  "(\<exists>ns'. sumNormals vs ts ns = Inr ns') \<longleftrightarrow>
     (ts = [] \<or> (\<forall>t \<in> set ts. vx t < length vs \<and> vy t < length vs \<and> vz t < length vs \<and>
                              vx t < length ns \<and> vy t < length ns \<and> vz t < length ns))"
  by (induction ts arbitrary: ns) (auto simp add: Let_def)

lemma resize_length [simp]: "length (resize n d xs) = n"
  by (simp add: resize_def)

lemma resize_Nil_nth: "i < n \<Longrightarrow> resize n d [] ! i = d"
  by (simp add: resize_def)

lemma single_triangle:
  assumes "vertices m = [Vec3 (Fin 0) (Fin 0) (Fin 0), Vec3 (Fin 1) (Fin 0) (Fin 0),
                         Vec3 (Fin 0) (Fin 1) (Fin 0)]"
    "triangles m = [Vec3 0 1 2]" "normals m = []"
  shows "calculateNormalsByArea m =
     Inr (m\<lparr>normals := [Vec3 (Fin 0) (Fin 0) (Fin 1), Vec3 (Fin 0) (Fin 0) (Fin 1),
                          Vec3 (Fin 0) (Fin 0) (Fin 1)]\<rparr>)"
  using assms
  by (simp add: calculateNormalsByArea_def resize_def vzero_def triangleNormal_def fsub_def Let_def
      eval_nat_numeral cong: eval_cong)

text \<open>
  C3. \<^verbatim>\<open>calculateNormalsByArea\<close> returns exactly when every index of every triangle is
  an index of a vertex. Then only the normals have changed, there is one per vertex, and
  the normal of vertex \<open>i\<close> is the normalized sum of its accumulator and, for every
  triangle in turn and every corner of it that is vertex \<open>i\<close>, the cross product of the
  edges \<open>v1 - v0\<close> and \<open>v2 - v0\<close> of the triangle, not normalized. The accumulator is
  what \<^verbatim>\<open>resize\<close> left of the normal the mesh had, zero when the mesh had no normals. For
  the mesh with the vertices (0,0,0), (1,0,0), (0,1,0), the triangle (0,1,2) and no normals
  the result is the normal (0,0,1) at all three vertices.
\<close>

theorem calculateNormalsByArea_two_pass:
  "(calculateNormalsByArea m = Inr m' \<longrightarrow>
      m' = m\<lparr>normals := normals m'\<rparr> \<and>
      length (normals m') = length (vertices m) \<and>
      (\<forall>i < length (vertices m).
         normals m' ! i =
           vnormalize (foldl vadd (resize (length (vertices m)) vzero (normals m) ! i)
                         (contributions (vertices m) (triangles m) i)) \<and>
         (normals m = [] \<longrightarrow>
            normals m' ! i =
              vnormalize (foldl vadd vzero (contributions (vertices m) (triangles m) i))))) \<and>
   ((\<exists>m'. calculateNormalsByArea m = Inr m') \<longleftrightarrow>
      (\<forall>t \<in> set (triangles m).
         vx t < length (vertices m) \<and> vy t < length (vertices m) \<and> vz t < length (vertices m))) \<and>
   triangleNormal vs t = cross (vsub (vs ! vy t) (vs ! vx t)) (vsub (vs ! vz t) (vs ! vx t)) \<and>
   (vertices m = [Vec3 (Fin 0) (Fin 0) (Fin 0), Vec3 (Fin 1) (Fin 0) (Fin 0),
                  Vec3 (Fin 0) (Fin 1) (Fin 0)] \<and>
    triangles m = [Vec3 0 1 2] \<and> normals m = [] \<longrightarrow>
      calculateNormalsByArea m =
        Inr (m\<lparr>normals := [Vec3 (Fin 0) (Fin 0) (Fin 1), Vec3 (Fin 0) (Fin 0) (Fin 1),
                             Vec3 (Fin 0) (Fin 0) (Fin 1)]\<rparr>))"
proof (intro conjI impI)
  assume a: "calculateNormalsByArea m = Inr m'"
  then obtain ns where s: "sumNormals (vertices m) (triangles m)
      (resize (length (vertices m)) vzero (normals m)) = Inr ns"
    and m': "m' = m\<lparr>normals := map vnormalize ns\<rparr>"
    by (auto simp add: calculateNormalsByArea_def split: sum.splits)
  from sumNormals_nth [OF s] have l: "length ns = length (vertices m)"
    and n: "\<And>i. i < length (vertices m) \<Longrightarrow>
      ns ! i = foldl vadd (resize (length (vertices m)) vzero (normals m) ! i)
                 (contributions (vertices m) (triangles m) i)"
    by simp_all
  show "m' = m\<lparr>normals := normals m'\<rparr>" using m' by simp
  show "length (normals m') = length (vertices m)" using m' l by simp
  show "\<forall>i < length (vertices m).
         normals m' ! i =
           vnormalize (foldl vadd (resize (length (vertices m)) vzero (normals m) ! i)
                         (contributions (vertices m) (triangles m) i)) \<and>
         (normals m = [] \<longrightarrow>
            normals m' ! i =
              vnormalize (foldl vadd vzero (contributions (vertices m) (triangles m) i)))"
    using m' l n by (simp add: resize_Nil_nth)
next
  show "(\<exists>m'. calculateNormalsByArea m = Inr m') \<longleftrightarrow>
      (\<forall>t \<in> set (triangles m).
         vx t < length (vertices m) \<and> vy t < length (vertices m) \<and> vz t < length (vertices m))"
    using sumNormals_total [of "vertices m" "triangles m"
        "resize (length (vertices m)) vzero (normals m)"]
    by (auto simp add: calculateNormalsByArea_def split: sum.splits)
next
  show "triangleNormal vs t = cross (vsub (vs ! vy t) (vs ! vx t)) (vsub (vs ! vz t) (vs ! vx t))"
    by (simp add: triangleNormal_def)
next
  assume "vertices m = [Vec3 (Fin 0) (Fin 0) (Fin 0), Vec3 (Fin 1) (Fin 0) (Fin 0),
                  Vec3 (Fin 0) (Fin 1) (Fin 0)] \<and>
    triangles m = [Vec3 0 1 2] \<and> normals m = []"
  then show "calculateNormalsByArea m =
        Inr (m\<lparr>normals := [Vec3 (Fin 0) (Fin 0) (Fin 1), Vec3 (Fin 0) (Fin 0) (Fin 1),
                             Vec3 (Fin 0) (Fin 0) (Fin 1)]\<rparr>)"
    by (intro single_triangle) simp_all
qed

theorem calculateNormalsByArea_two_pass_witness:
  "vertices triangleMesh = [Vec3 (Fin 0) (Fin 0) (Fin 0), Vec3 (Fin 1) (Fin 0) (Fin 0),
                            Vec3 (Fin 0) (Fin 1) (Fin 0)] \<and>
   triangles triangleMesh = [Vec3 0 1 2] \<and> normals triangleMesh = [] \<and>
   contributions (vertices triangleMesh) (triangles triangleMesh) 1 = [Vec3 (Fin 0) (Fin 0) (Fin 1)] \<and>
   calculateNormalsByArea triangleMesh =
     Inr (triangleMesh\<lparr>normals := [Vec3 (Fin 0) (Fin 0) (Fin 1), Vec3 (Fin 0) (Fin 0) (Fin 1),
                                     Vec3 (Fin 0) (Fin 0) (Fin 1)]\<rparr>)"
proof -
  have a: "vertices triangleMesh = [Vec3 (Fin 0) (Fin 0) (Fin 0), Vec3 (Fin 1) (Fin 0) (Fin 0),
                            Vec3 (Fin 0) (Fin 1) (Fin 0)] \<and>
     triangles triangleMesh = [Vec3 0 1 2] \<and> normals triangleMesh = []"
    by (simp add: triangleMesh_def mesh0_def)
  have c: "contributions (vertices triangleMesh) (triangles triangleMesh) 1 =
      [Vec3 (Fin 0) (Fin 0) (Fin 1)]"
    by (simp add: a contributions_def triangleNormal_def fsub_def)
  from a c calculateNormalsByArea_two_pass [of triangleMesh] show ?thesis
    by blast
qed

section \<open>The bounding box and the terrain\<close>


lemma isNum_FLT_MAX [simp]: "isNum FLT_MAX" "isNum (fneg FLT_MAX)"
  by (simp_all add: FLT_MAX_def isNum_def)






















lemma fneg_NaN [simp]: "fneg x = NaN \<longleftrightarrow> x = NaN"
  by (cases x) simp_all













lemmas eval_terrain = generateTerrain_def buildHeightmap_def buildMesh_def seedCorner_def dist_gen_def hmSet_def hmGet_def
  diamondStep_def squareStep_def diamondCell_def squareCell_def addNeighbour_def randomOffset_def
  emitVertex_def emitCell_def computeColor_def std_clamp_def floatOfInt_def
  forLoop.simps diamondSquare.simps
























text \<open>
  C4 fails on the code. The diamond step reads the height map at \<open>x + halfStep\<close> and
  \<open>z + halfStep\<close> without the checks that the square step makes. For a height of 4 and a
  width of 3, and the other way round, the first diamond step reads outside the height
  map, whatever the random values, so no mesh is produced.
\<close>

theorem generateTerrain_out_of_bounds:
  "generateTerrain 4 3 iterations gen m wld = Inl OutOfBounds \<and>
   generateTerrain 3 4 iterations gen m wld = Inl OutOfBounds"
  by (simp add: eval_terrain Let_def split_def cong: eval_cong)

end
